theory Spec2Isabelle
  imports Main "HOL-Library.Sublist"
begin

section \<open>Android Package Puller: a shallow embedding of main.go\<close>

text \<open>
  The program lists the connected devices, lets the user choose one, lists the
  packages installed on it, lets the user choose one and pulls its APK.  The
  embedding follows \<^verbatim>\<open>main.go\<close> function by function.  Go strings are byte
  sequences, modelled by \<^typ>\<open>string\<close>; Go's \<^verbatim>\<open>int\<close> is modelled by
  \<^typ>\<open>int\<close> (the only arithmetic of the program is \<^verbatim>\<open>len(xs)-1\<close>, which
  cannot overflow, and the range of \<^verbatim>\<open>strconv.Atoi\<close> is written out).

  The two process-wide variables \<^verbatim>\<open>packageName\<close> and \<^verbatim>\<open>deviceSerial\<close>
  are read-only after flag parsing; they are passed as parameters.
\<close>

subsection \<open>Data\<close>

record Package =
  Name :: string
  Path :: string

text \<open>
  \<^verbatim>\<open>adb.Device\<close> belongs to the external bridge package; the program reads
  its fields \<^verbatim>\<open>Serial\<close> and \<^verbatim>\<open>State\<close> only.
\<close>

record Device =
  Serial :: string
  State :: string

text \<open>
  The \<^verbatim>\<open>Err\<close> field of \<^verbatim>\<open>strconv.NumError\<close>, and the error itself with
  the string that failed to parse.
\<close>

datatype NumErr = ErrSyntax | ErrRange

datatype NumError = NumError string NumErr

text \<open>
  Output is kept structured: a format string with its arguments, as they are
  handed to \<^verbatim>\<open>fmt.Printf\<close> and \<^verbatim>\<open>fmt.Errorf\<close>.  \<open>N e\<close> stands for the
  text \<^verbatim>\<open>e.Error()\<close> of a number-parsing error.
\<close>

datatype arg = S string | D int | N NumError

text \<open>
  An error value is what \<^verbatim>\<open>fmt.Errorf\<close> built.  Indexing a slice out of
  range is a run-time panic in Go; it is a value of its own here, so that its
  absence can be stated.
\<close>

datatype error = Errorf string "arg list" | PanicIndexOutOfRange int nat

datatype event =
    Printf string "arg list"
  | Fprintf_Stderr string error
  | Pull Device string string

text \<open>
  The world the program runs in.  \<open>stdin\<close> holds, for each
  \<^verbatim>\<open>bufio.NewReader(os.Stdin)\<close> still to be created, the bytes that
  reader obtains from standard input before its \<^verbatim>\<open>ReadString\<close> returns
  (the reader is dropped afterwards, with whatever it had buffered).  \<open>trace\<close>
  is everything printed or pulled so far, oldest first.
\<close>

record world =
  stdin :: "string list"
  trace :: "event list"

text \<open>The bridge client, an external collaborator: the results of its calls.\<close>

record env =
  Devices :: "string + Device list"
  Call :: "Device \<Rightarrow> string list \<Rightarrow> string + string"
  PullResult :: "Device \<Rightarrow> string \<Rightarrow> string \<Rightarrow> string option"

subsection \<open>The Go library functions the program calls\<close>

abbreviation NL :: char where "NL \<equiv> CHR 0x0A"

abbreviation TAB :: char where "TAB \<equiv> CHR 0x09"

text \<open>
  \<^verbatim>\<open>unicode.IsSpace\<close>: the UTF-8 encodings of the white space runes
  (tab, line feed, vertical tab, form feed, carriage return, space, U+0085,
  U+00A0, U+1680, U+2000 to U+200A, U+2028, U+2029, U+202F, U+205F, U+3000).
\<close>

definition spaceRunes :: "string list" where
  "spaceRunes =
    [[CHR 0x09], [CHR 0x0A], [CHR 0x0B], [CHR 0x0C], [CHR 0x0D], [CHR 0x20],
     [CHR 0xC2, CHR 0x85], [CHR 0xC2, CHR 0xA0],
     [CHR 0xE1, CHR 0x9A, CHR 0x80],
     [CHR 0xE2, CHR 0x80, CHR 0x80], [CHR 0xE2, CHR 0x80, CHR 0x81],
     [CHR 0xE2, CHR 0x80, CHR 0x82], [CHR 0xE2, CHR 0x80, CHR 0x83],
     [CHR 0xE2, CHR 0x80, CHR 0x84], [CHR 0xE2, CHR 0x80, CHR 0x85],
     [CHR 0xE2, CHR 0x80, CHR 0x86], [CHR 0xE2, CHR 0x80, CHR 0x87],
     [CHR 0xE2, CHR 0x80, CHR 0x88], [CHR 0xE2, CHR 0x80, CHR 0x89],
     [CHR 0xE2, CHR 0x80, CHR 0x8A],
     [CHR 0xE2, CHR 0x80, CHR 0xA8], [CHR 0xE2, CHR 0x80, CHR 0xA9],
     [CHR 0xE2, CHR 0x80, CHR 0xAF], [CHR 0xE2, CHR 0x81, CHR 0x9F],
     [CHR 0xE3, CHR 0x80, CHR 0x80]]"

text \<open>
  The width in bytes of the rune of \<open>runes\<close> that \<open>s\<close> starts with, 0 when it
  starts with none.
\<close>

definition leading :: "string list \<Rightarrow> string \<Rightarrow> nat" where
  "leading runes s =
     (case find (\<lambda>e. prefix e s) runes of None \<Rightarrow> 0 | Some e \<Rightarrow> length e)"

text \<open>\<^verbatim>\<open>strings.TrimLeftFunc\<close>: drop leading runes while they are in \<open>runes\<close>.\<close>

function stripLeading :: "string list \<Rightarrow> string \<Rightarrow> string" where
  "stripLeading runes s =
     (if leading runes s = 0 \<or> s = [] then s
      else stripLeading runes (drop (leading runes s) s))"
  by pat_completeness auto
termination
  by (relation "measure (\<lambda>(runes, s). length s)") auto

definition TrimLeft :: "string \<Rightarrow> string" where
  "TrimLeft s = stripLeading spaceRunes s"

text \<open>
  \<^verbatim>\<open>strings.TrimRightFunc\<close>: the same from the end.  A string ends with a
  white space rune exactly when its reversal starts with the reversed encoding.
\<close>

definition TrimRight :: "string \<Rightarrow> string" where
  "TrimRight s = rev (stripLeading (map rev spaceRunes) (rev s))"

text \<open>\<^verbatim>\<open>strings.TrimSpace\<close> is \<^verbatim>\<open>TrimFunc(s, unicode.IsSpace)\<close>: left, then right.\<close>

definition TrimSpace :: "string \<Rightarrow> string" where
  "TrimSpace s = TrimRight (TrimLeft s)"

text \<open>\<^verbatim>\<open>strings.HasPrefix\<close>.\<close>

definition HasPrefix :: "string \<Rightarrow> string \<Rightarrow> bool" where
  "HasPrefix s pre = (length s \<ge> length pre \<and> take (length pre) s = pre)"

text \<open>
  \<^verbatim>\<open>strings.Split\<close> and \<^verbatim>\<open>strings.SplitN\<close>, for a separator of one byte
  (the program splits on \<^verbatim>\<open>"\n"\<close> and on \<^verbatim>\<open>"="\<close>).  \<open>SplitN s sep n\<close> is
  given for \<open>n \<ge> 0\<close>: no piece for 0, otherwise at most \<open>n\<close> pieces, the last
  one the unsplit rest.
\<close>

function Split :: "string \<Rightarrow> char \<Rightarrow> string list" where
  "Split s sep =
     (if sep \<in> set s
      then takeWhile (\<lambda>c. c \<noteq> sep) s # Split (tl (dropWhile (\<lambda>c. c \<noteq> sep) s)) sep
      else [s])"
  by pat_completeness auto
termination
proof (relation "measure (\<lambda>(s, sep). length s)")
  show "wf (measure (\<lambda>(s, sep). length s))" by simp
next
  fix s :: string and sep :: char
  assume "sep \<in> set s"
  then have "dropWhile (\<lambda>c. c \<noteq> sep) s \<noteq> []" by simp
  then have "length (tl (dropWhile (\<lambda>c. c \<noteq> sep) s)) < length (dropWhile (\<lambda>c. c \<noteq> sep) s)"
    by (cases "dropWhile (\<lambda>c. c \<noteq> sep) s") simp_all
  also have "\<dots> \<le> length s" by (rule length_dropWhile_le)
  finally show "((tl (dropWhile (\<lambda>c. c \<noteq> sep) s), sep), (s, sep)) \<in> measure (\<lambda>(s, sep). length s)"
    by simp
qed

fun SplitN :: "string \<Rightarrow> char \<Rightarrow> nat \<Rightarrow> string list" where
  "SplitN s sep 0 = []"
| "SplitN s sep (Suc 0) = [s]"
| "SplitN s sep (Suc (Suc n)) =
     (if sep \<in> set s
      then takeWhile (\<lambda>c. c \<noteq> sep) s # SplitN (tl (dropWhile (\<lambda>c. c \<noteq> sep) s)) sep (Suc n)
      else [s])"

text \<open>
  \<^verbatim>\<open>strconv.Atoi\<close>, for a 64-bit \<^verbatim>\<open>int\<close>: an optional sign, then
  \<^verbatim>\<open>ParseUint\<close> in base 10 over the rest, which reads the bytes from the left
  and stops at the first one that is no digit (a syntax error) or that takes
  the value beyond 64 bits (a range error); then the check of the signed range.
\<close>

definition isDigit :: "char \<Rightarrow> bool" where
  "isDigit c = (48 \<le> (of_char c :: int) \<and> (of_char c :: int) \<le> 57)"

definition digitVal :: "char \<Rightarrow> int" where
  "digitVal c = of_char c - 48"

fun ParseUint_loop :: "string \<Rightarrow> int \<Rightarrow> NumErr + int" where
  "ParseUint_loop [] n = Inr n"
| "ParseUint_loop (c # cs) n =
     (if \<not> isDigit c then Inl ErrSyntax
      else if n * 10 + digitVal c > 2 ^ 64 - 1 then Inl ErrRange
      else ParseUint_loop cs (n * 10 + digitVal c))"

definition ParseUint :: "string \<Rightarrow> NumErr + int" where
  "ParseUint s = (if s = [] then Inl ErrSyntax else ParseUint_loop s 0)"

definition Atoi :: "string \<Rightarrow> NumError + int" where
  "Atoi s =
     (if s = [] then Inl (NumError s ErrSyntax)
      else
        let neg = (hd s = CHR ''-'');
            s1 = (if hd s = CHR ''+'' \<or> hd s = CHR ''-'' then tl s else s)
        in case ParseUint s1 of
             Inl e \<Rightarrow> Inl (NumError s e)
           | Inr un \<Rightarrow>
               if \<not> neg \<and> un \<ge> 2 ^ 63 then Inl (NumError s ErrRange)
               else if neg \<and> un > 2 ^ 63 then Inl (NumError s ErrRange)
               else Inr (if neg then - un else un))"

text \<open>
  \<^verbatim>\<open>reader.ReadString(delim)\<close> on a fresh reader over standard input: the
  bytes up to and including the first \<open>delim\<close>, or everything that could be
  read and an error (\<open>True\<close>) when the input ended or failed before a \<open>delim\<close>.
\<close>

definition ReadString :: "char \<Rightarrow> world \<Rightarrow> (string \<times> bool) \<times> world" where
  "ReadString delim w =
     (case stdin w of
        [] \<Rightarrow> (([], True), w)
      | chunk # rest \<Rightarrow>
          (if delim \<in> set chunk
           then ((takeWhile (\<lambda>c. c \<noteq> delim) chunk @ [delim], False), w\<lparr>stdin := rest\<rparr>)
           else ((chunk, True), w\<lparr>stdin := rest\<rparr>)))"

text \<open>\<^verbatim>\<open>fmt.Printf\<close>: one more event on standard output.\<close>

definition printf :: "string \<Rightarrow> arg list \<Rightarrow> world \<Rightarrow> world" where
  "printf format args w = w\<lparr>trace := trace w @ [Printf format args]\<rparr>"

subsection \<open>The program\<close>

text \<open>\<^verbatim>\<open>printError\<close>: build the error, print it on standard error, return it.\<close>

definition printError :: "string \<Rightarrow> arg list \<Rightarrow> world \<Rightarrow> error \<times> world" where
  "printError format args w =
     (let err = Errorf format args
      in (err, w\<lparr>trace := trace w @ [Fprintf_Stderr ''%s\<newline>'' err]\<rparr>))"

text \<open>An error return of a function that printed its error.\<close>

definition fail :: "string \<Rightarrow> arg list \<Rightarrow> world \<Rightarrow> (error + 'a) \<times> world" where
  "fail format args w = (case printError format args w of (err, w') \<Rightarrow> (Inl err, w'))"

definition readInputNumber :: "string \<Rightarrow> int \<Rightarrow> int \<Rightarrow> world \<Rightarrow> (error + int) \<times> world" where
  "readInputNumber prompt min' max' w0 =
     (let w1 = printf ''%s [%d-%d]: '' [S prompt, D min', D max'] w0
      in case ReadString NL w1 of
           ((input0, err), w2) \<Rightarrow>
             let input = (if \<not> err then TrimSpace input0 else input0)
             in if err \<or> length input = 0 then fail ''Input cancelled'' [] w2
                else (case Atoi input of
                        Inl e \<Rightarrow> fail ''Invalid input: %s'' [N e] w2
                      | Inr index \<Rightarrow>
                          if index < min' \<or> index > max'
                          then fail ''Input out of range: %d'' [D index] w2
                          else (Inr index, w2)))"

text \<open>\<^verbatim>\<open>xs[index]\<close>: Go panics when the index is out of range.\<close>

definition at_index :: "'a list \<Rightarrow> int \<Rightarrow> world \<Rightarrow> (error + 'a) \<times> world" where
  "at_index xs index w =
     (if 0 \<le> index \<and> index < int (length xs) then (Inr (xs ! nat index), w)
      else (Inl (PanicIndexOutOfRange index (length xs)), w))"

text \<open>The heading and the numbered list that \<^verbatim>\<open>getDevice\<close> prints before it asks.\<close>

definition listDevices :: "Device list \<Rightarrow> world \<Rightarrow> world" where
  "listDevices devices w =
     fold (\<lambda>(i, device).
             printf ([TAB] @ ''%d:'' @ [TAB] @ ''%s %s\<newline>'')
               [D (int i), S (Serial device), S (State device)])
       (enumerate 0 devices) (printf ''Devices:\<newline>'' [] w)"

definition getDevice :: "string \<Rightarrow> Device list \<Rightarrow> world \<Rightarrow> (error + Device) \<times> world" where
  "getDevice deviceSerial devices w0 =
     (case (if length deviceSerial > 0
            then find (\<lambda>device. Serial device = deviceSerial) devices else None) of
        Some device \<Rightarrow> (Inr device, w0)
      | None \<Rightarrow>
          let w1 = (if length deviceSerial > 0
                    then printf ''Warning: Could not locate device.\<newline>'' [] w0 else w0)
          in if length devices = 1
             then (Inr (devices ! 0), printf ''Device: %s\<newline>'' [S (Serial (devices ! 0))] w1)
             else
               let w3 = listDevices devices w1
               in (case readInputNumber ''Which device?'' 0 (int (length devices) - 1) w3 of
                     (Inl err, w4) \<Rightarrow> (Inl err, w4)
                   | (Inr index, w4) \<Rightarrow> at_index devices index w4))"

text \<open>The body of the loop of \<^verbatim>\<open>getPackageList\<close>, for one line, and the loop.\<close>

definition getPackageList_line ::
  "string \<Rightarrow> Package list \<times> world \<Rightarrow> Package list \<times> world" where
  "getPackageList_line line0 = (\<lambda>(packages, w).
     let line = TrimSpace line0
     in if HasPrefix line ''package:'' = False then (packages, w)
        else
          let parts = SplitN (drop 8 line) (CHR ''='') 2
          in if length parts \<noteq> 2
             then (packages,
                   snd (printError (''Bad package manager response: '' @ [CHR 0x27] @ ''%s'' @ [CHR 0x27])
                          [S line] w))
             else (packages @ [\<lparr>Name = parts ! 1, Path = parts ! 0\<rparr>], w))"

definition getPackageList ::
  "(Device \<Rightarrow> string list \<Rightarrow> string + string) \<Rightarrow> Device \<Rightarrow> world \<Rightarrow> (error + Package list) \<times> world" where
  "getPackageList call device w0 =
     (case call device [''pm'', ''list'', ''packages'', ''-f''] of
        Inl err \<Rightarrow>
          fail ''Failed to retrieve packages: %s'' [S err]
            (printf ''Failed list root: %s\<newline>'' [S err] w0)
      | Inr data \<Rightarrow>
          let lines = Split data NL
          in case fold getPackageList_line lines ([], w0) of
               (packages, w1) \<Rightarrow>
                 if length packages = 0 then fail ''No packages found'' [] w1
                 else (Inr packages, w1))"

text \<open>The heading and the numbered list that \<^verbatim>\<open>getPackage\<close> prints before it asks.\<close>

definition listPackages :: "Package list \<Rightarrow> world \<Rightarrow> world" where
  "listPackages pkgs w =
     fold (\<lambda>(i, pkg).
             printf ([TAB] @ ''%d:'' @ [TAB] @ ''%s %s\<newline>'')
               [D (int i), S (Name pkg), S (Path pkg)])
       (enumerate 0 pkgs) (printf ''Packages:\<newline>'' [] w)"

definition getPackage :: "string \<Rightarrow> Package list \<Rightarrow> world \<Rightarrow> (error + Package) \<times> world" where
  "getPackage packageName pkgs w0 =
     (if length packageName > 0
      then (case find (\<lambda>pkg. Name pkg = packageName) pkgs of
              Some pkg \<Rightarrow> (Inr pkg, w0)
            | None \<Rightarrow> fail ''Could not locate package: %s'' [S packageName] w0)
      else
        let w2 = listPackages pkgs w0
        in case readInputNumber ''Which package?'' 0 (int (length pkgs) - 1) w2 of
             (Inl err, w3) \<Rightarrow> (Inl err, w3)
           | (Inr index, w3) \<Rightarrow> at_index pkgs index w3)"

text \<open>
  \<^verbatim>\<open>os.Exit(1)\<close> after an error that was returned; a panic ends the process
  with status 2.
\<close>

fun exitCode :: "error \<Rightarrow> int" where
  "exitCode (Errorf format args) = 1"
| "exitCode (PanicIndexOutOfRange i n) = 2"

text \<open>\<^verbatim>\<open>main\<close>, after \<^verbatim>\<open>flag.Parse()\<close>: the exit status and the final world.\<close>

definition main :: "env \<Rightarrow> string \<Rightarrow> string \<Rightarrow> world \<Rightarrow> int \<times> world" where
  "main e packageName deviceSerial w0 =
     (case Devices e of
        Inl err \<Rightarrow> (1, snd (printError ''Failed to get list of devices: %s\<newline>'' [S err] w0))
      | Inr devices \<Rightarrow>
          (case getDevice deviceSerial devices w0 of
             (Inl err, w1) \<Rightarrow> (exitCode err, w1)
           | (Inr device, w1) \<Rightarrow>
               (case getPackageList (Call e) device w1 of
                  (Inl err, w2) \<Rightarrow> (exitCode err, w2)
                | (Inr pkgs, w2) \<Rightarrow>
                    (case getPackage packageName pkgs w2 of
                       (Inl err, w3) \<Rightarrow> (exitCode err, w3)
                     | (Inr pkg, w3) \<Rightarrow>
                         let apkName = Name pkg @ ''.apk'';
                             w4 = printf ''Pulling %s from device... '' [S apkName] w3;
                             w5 = w4\<lparr>trace := trace w4 @ [Pull device (Path pkg) apkName]\<rparr>
                         in (case PullResult e device (Path pkg) apkName of
                               None \<Rightarrow> (0, printf ''Success\<newline>'' [] w5)
                             | Some err \<Rightarrow>
                                 (1, snd (printError ''Failed to pull package from device: %s'' [S err]
                                            (printf ''Failed\<newline>'' [] w5))))))))"

subsection \<open>Notions the properties are stated with\<close>

text \<open>
  A prompt is the line that \<^verbatim>\<open>readInputNumber\<close> prints before it reads;
  \<open>prompts\<close> counts the prompts of a trace.
\<close>

fun isPrompt :: "event \<Rightarrow> bool" where
  "isPrompt (Printf format args) = (format = ''%s [%d-%d]: '')"
| "isPrompt (Fprintf_Stderr format err) = False"
| "isPrompt (Pull device src dst) = False"

definition prompts :: "world \<Rightarrow> nat" where
  "prompts w = length (filter isPrompt (trace w))"

text \<open>
  What it means for a string to parse as a base-10 integer, stated without
  the parsing loop: an optional sign, then one digit or more, whose value fits
  the 64-bit \<^verbatim>\<open>int\<close>.
\<close>

definition decimalValue :: "string \<Rightarrow> int" where
  "decimalValue ds = foldl (\<lambda>n c. n * 10 + digitVal c) 0 ds"

definition base10 :: "string \<Rightarrow> int option" where
  "base10 s =
     (let ds = (if s \<noteq> [] \<and> (hd s = CHR ''+'' \<or> hd s = CHR ''-'') then tl s else s);
          v = (if s \<noteq> [] \<and> hd s = CHR ''-'' then - decimalValue ds else decimalValue ds)
      in if ds \<noteq> [] \<and> list_all isDigit ds \<and> - (2 ^ 63) \<le> v \<and> v < 2 ^ 63
         then Some v else None)"

text \<open>
  The record of a line of the package manager's output, in the words of its
  text protocol: the line, trimmed, is \<^verbatim>\<open>package:<path>=<identifier>\<close>, cut
  at the first \<^verbatim>\<open>=\<close> after the prefix; any other line has no record.
\<close>

definition lineRecord :: "string \<Rightarrow> Package option" where
  "lineRecord line0 =
     (let line = TrimSpace line0; rest = drop 8 line
      in if prefix ''package:'' line \<and> CHR ''='' \<in> set rest
         then Some \<lparr>Name = tl (dropWhile (\<lambda>c. c \<noteq> CHR ''='') rest),
                    Path = takeWhile (\<lambda>c. c \<noteq> CHR ''='') rest\<rparr>
         else None)"

text \<open>The warning printed for a line with the prefix and no \<^verbatim>\<open>=\<close>.\<close>

definition badResponse :: "string \<Rightarrow> event" where
  "badResponse line =
     Fprintf_Stderr ''%s\<newline>''
       (Errorf (''Bad package manager response: '' @ [CHR 0x27] @ ''%s'' @ [CHR 0x27]) [S line])"

section \<open>Properties\<close>

subsection \<open>Printing and failing\<close>

lemma fail_eq:
  "fail format args w =
     (Inl (Errorf format args), w\<lparr>trace := trace w @ [Fprintf_Stderr ''%s\<newline>'' (Errorf format args)]\<rparr>)"
  by (simp add: fail_def printError_def Let_def)

lemma stdin_printf: "stdin (printf format args w) = stdin w"
  by (simp add: printf_def)

lemma trace_printf: "trace (printf format args w) = trace w @ [Printf format args]"
  by (simp add: printf_def)

lemma prompts_printf:
  "prompts (printf format args w) = prompts w + (if format = ''%s [%d-%d]: '' then 1 else 0)"
  by (simp add: prompts_def printf_def)

subsection \<open>\<^verbatim>\<open>strconv.Atoi\<close> parses base-10 integers\<close>

lemma digitVal_nonneg: "isDigit c \<Longrightarrow> 0 \<le> digitVal c"
  by (simp add: isDigit_def digitVal_def)

lemma foldl_digits_mono:
  "list_all isDigit cs \<Longrightarrow> 0 \<le> n \<Longrightarrow> n \<le> foldl (\<lambda>n c. n * 10 + digitVal c) n cs"
proof (induction cs arbitrary: n)
  case Nil
  then show ?case by simp
next
  case (Cons c cs)
  then have d: "0 \<le> digitVal c" and all: "list_all isDigit cs"
    by (simp_all add: digitVal_nonneg)
  from Cons.prems d have m0: "0 \<le> n * 10 + digitVal c" by simp
  from Cons.prems d have "n \<le> n * 10 + digitVal c" by simp
  also have "\<dots> \<le> foldl (\<lambda>n c. n * 10 + digitVal c) (n * 10 + digitVal c) cs"
    by (rule Cons.IH[OF all m0])
  finally show ?case by simp
qed

lemma ParseUint_loop_nondigit:
  "\<not> list_all isDigit cs \<Longrightarrow> \<exists>e. ParseUint_loop cs n = Inl e"
  by (induction cs arbitrary: n) auto

lemma ParseUint_loop_digits:
  "list_all isDigit cs \<Longrightarrow> 0 \<le> n \<Longrightarrow> n \<le> 2 ^ 64 - 1 \<Longrightarrow>
   ParseUint_loop cs n =
     (if foldl (\<lambda>n c. n * 10 + digitVal c) n cs > 2 ^ 64 - 1 then Inl ErrRange
      else Inr (foldl (\<lambda>n c. n * 10 + digitVal c) n cs))"
proof (induction cs arbitrary: n)
  case Nil
  then show ?case by simp
next
  case (Cons c cs)
  let ?m = "n * 10 + digitVal c"
  from Cons.prems have c: "isDigit c" and all: "list_all isDigit cs" by simp_all
  from c Cons.prems have m0: "0 \<le> ?m" using digitVal_nonneg[OF c] by simp
  show ?case
  proof (cases "?m > 2 ^ 64 - 1")
    case True
    from foldl_digits_mono[OF all m0] True
    have "foldl (\<lambda>n c. n * 10 + digitVal c) ?m cs > 2 ^ 64 - 1" by linarith
    with True c show ?thesis by simp
  next
    case False
    then have "?m \<le> 2 ^ 64 - 1" by simp
    from Cons.IH[OF all m0 this] c False show ?thesis by simp
  qed
qed

lemma decimalValue_nonneg: "list_all isDigit ds \<Longrightarrow> 0 \<le> decimalValue ds"
  using foldl_digits_mono[of ds 0] by (simp add: decimalValue_def)

lemma ParseUint_ok:
  "ds \<noteq> [] \<Longrightarrow> list_all isDigit ds \<Longrightarrow> decimalValue ds \<le> 2 ^ 64 - 1 \<Longrightarrow>
   ParseUint ds = Inr (decimalValue ds)"
  using ParseUint_loop_digits[of ds 0] by (simp add: ParseUint_def decimalValue_def)

lemma ParseUint_range:
  "ds \<noteq> [] \<Longrightarrow> list_all isDigit ds \<Longrightarrow> \<not> decimalValue ds \<le> 2 ^ 64 - 1 \<Longrightarrow>
   ParseUint ds = Inl ErrRange"
  using ParseUint_loop_digits[of ds 0] by (simp add: ParseUint_def decimalValue_def)

lemma ParseUint_bad:
  "ds = [] \<or> \<not> list_all isDigit ds \<Longrightarrow> \<exists>e. ParseUint ds = Inl e"
  using ParseUint_loop_nondigit[of ds 0] by (auto simp: ParseUint_def)

lemma Atoi_Some: "base10 s = Some v \<Longrightarrow> Atoi s = Inr v"
proof -
  assume b: "base10 s = Some v"
  define ds where "ds = (if s \<noteq> [] \<and> (hd s = CHR ''+'' \<or> hd s = CHR ''-'') then tl s else s)"
  from b have ne: "ds \<noteq> []" and all: "list_all isDigit ds"
    by (auto simp: base10_def Let_def ds_def split: if_splits)
  from ne have sne: "s \<noteq> []" by (auto simp: ds_def split: if_splits)
  from b have v: "v = (if hd s = CHR ''-'' then - decimalValue ds else decimalValue ds)"
    and lo: "- (2 ^ 63) \<le> v" and hi: "v < 2 ^ 63"
    using sne by (auto simp: base10_def Let_def ds_def split: if_splits)
  have nn: "0 \<le> decimalValue ds" by (rule decimalValue_nonneg[OF all])
  from v lo hi nn have le: "decimalValue ds \<le> 2 ^ 64 - 1" by (simp split: if_splits)
  have pu: "ParseUint ds = Inr (decimalValue ds)" by (rule ParseUint_ok[OF ne all le])
  have ds': "(if hd s = CHR ''+'' \<or> hd s = CHR ''-'' then tl s else s) = ds"
    using sne by (simp add: ds_def)
  show ?thesis
    using sne pu v lo hi nn by (simp add: Atoi_def Let_def ds' split: if_splits)
qed

lemma Atoi_None: "base10 s = None \<Longrightarrow> \<exists>k. Atoi s = Inl (NumError s k)"
proof (cases "s = []")
  case True
  then show ?thesis by (simp add: Atoi_def)
next
  case sne: False
  assume b: "base10 s = None"
  define ds where "ds = (if s \<noteq> [] \<and> (hd s = CHR ''+'' \<or> hd s = CHR ''-'') then tl s else s)"
  have ds': "(if hd s = CHR ''+'' \<or> hd s = CHR ''-'' then tl s else s) = ds"
    using sne by (simp add: ds_def)
  show ?thesis
  proof (cases "ds \<noteq> [] \<and> list_all isDigit ds")
    case False
    then obtain e where "ParseUint ds = Inl e" using ParseUint_bad[of ds] by auto
    then show ?thesis using sne by (simp add: Atoi_def Let_def ds')
  next
    case True
    then have ne: "ds \<noteq> []" and all: "list_all isDigit ds" by simp_all
    have nn: "0 \<le> decimalValue ds" by (rule decimalValue_nonneg[OF all])
    show ?thesis
    proof (cases "decimalValue ds \<le> 2 ^ 64 - 1")
      case False
      from ParseUint_range[OF ne all False] show ?thesis
        using sne by (simp add: Atoi_def Let_def ds')
    next
      case le: True
      have pu: "ParseUint ds = Inr (decimalValue ds)" by (rule ParseUint_ok[OF ne all le])
      from b ne all have
        "\<not> (- (2 ^ 63) \<le> (if hd s = CHR ''-'' then - decimalValue ds else decimalValue ds)
            \<and> (if hd s = CHR ''-'' then - decimalValue ds else decimalValue ds) < 2 ^ 63)"
        using sne unfolding base10_def Let_def ds_def by (simp split: if_splits)
      then show ?thesis
        using sne pu nn by (auto simp: Atoi_def Let_def ds' split: if_splits)
    qed
  qed
qed

subsection \<open>Reading a number\<close>

lemma ReadString_printf:
  "ReadString delim (printf format args w) =
     (fst (ReadString delim w), (printf format args w)\<lparr>stdin := tl (stdin w)\<rparr>)"
  by (cases "stdin w") (simp_all add: ReadString_def printf_def)

lemma readInputNumber_eq:
  assumes "fst (ReadString NL w) = (input0, err)"
  shows "readInputNumber prompt min' max' w =
     (let w2 = (printf ''%s [%d-%d]: '' [S prompt, D min', D max'] w)\<lparr>stdin := tl (stdin w)\<rparr>
      in if err \<or> TrimSpace input0 = [] then fail ''Input cancelled'' [] w2
         else (case Atoi (TrimSpace input0) of
                 Inl e \<Rightarrow> fail ''Invalid input: %s'' [N e] w2
               | Inr index \<Rightarrow>
                   if index < min' \<or> index > max'
                   then fail ''Input out of range: %d'' [D index] w2
                   else (Inr index, w2)))"
  using assms by (simp add: readInputNumber_def ReadString_printf Let_def)

lemma stdin_fail: "stdin (snd (fail format args w)) = stdin w"
  by (simp add: fail_eq)

lemma prompts_fail: "prompts (snd (fail format args w)) = prompts w"
  by (simp add: fail_eq prompts_def)

lemma readInputNumber_stdin:
  "stdin (snd (readInputNumber prompt min' max' w)) = tl (stdin w)"
proof -
  obtain input0 err where r: "fst (ReadString NL w) = (input0, err)"
    by (cases "fst (ReadString NL w)") 
  show ?thesis
    by (simp add: readInputNumber_eq[OF r] Let_def stdin_fail split: sum.split)
qed

lemma readInputNumber_prompts:
  "prompts (snd (readInputNumber prompt min' max' w)) = Suc (prompts w)"
proof -
  obtain input0 err where r: "fst (ReadString NL w) = (input0, err)"
    by (cases "fst (ReadString NL w)") 
  have p: "prompts ((printf ''%s [%d-%d]: '' [S prompt, D min', D max'] w)\<lparr>stdin := tl (stdin w)\<rparr>)
             = Suc (prompts w)"
    by (simp add: prompts_def printf_def)
  show ?thesis
    by (simp add: readInputNumber_eq[OF r] Let_def prompts_fail p split: sum.split)
qed

lemma readInputNumber_Inr:
  "readInputNumber prompt min' max' w = (Inr index, w') \<Longrightarrow> min' \<le> index \<and> index \<le> max'"
proof -
  assume a: "readInputNumber prompt min' max' w = (Inr index, w')"
  obtain input0 err where r: "fst (ReadString NL w) = (input0, err)"
    by (cases "fst (ReadString NL w)") 
  from a show ?thesis
    by (auto simp: readInputNumber_eq[OF r] Let_def fail_eq split: sum.splits if_splits)
qed

lemma readInputNumber_Inl:
  "readInputNumber prompt min' max' w = (Inl e, w') \<Longrightarrow> \<exists>format args. e = Errorf format args"
proof -
  assume a: "readInputNumber prompt min' max' w = (Inl e, w')"
  obtain input0 err where r: "fst (ReadString NL w) = (input0, err)"
    by (cases "fst (ReadString NL w)") 
  from a show ?thesis
    by (auto simp: readInputNumber_eq[OF r] Let_def fail_eq split: sum.splits if_splits)
qed

text \<open>
  Claim C3.  Whatever the reader of \<^verbatim>\<open>readInputNumber\<close> obtains from
  standard input (the string \<open>input0\<close>, with \<open>err\<close> telling that the read
  failed), the checks are made in this order: an unreadable input, or one that
  is empty once trimmed, fails with "Input cancelled"; otherwise an input that
  does not parse as a base-10 integer (of the 64-bit \<^verbatim>\<open>int\<close>) fails with
  "Invalid input"; otherwise an integer outside \<open>[min, max]\<close> fails with
  "Input out of range"; otherwise the integer is returned.
\<close>

theorem readInputNumber_validation_order:
  assumes "fst (ReadString NL w) = (input0, err)"
  shows
    "(err \<or> TrimSpace input0 = [] \<longrightarrow>
        fst (readInputNumber prompt min' max' w) = Inl (Errorf ''Input cancelled'' []))
   \<and> (\<not> err \<and> TrimSpace input0 \<noteq> [] \<and> base10 (TrimSpace input0) = None \<longrightarrow>
        (\<exists>k. fst (readInputNumber prompt min' max' w) =
              Inl (Errorf ''Invalid input: %s'' [N (NumError (TrimSpace input0) k)])))
   \<and> (\<forall>v. \<not> err \<and> TrimSpace input0 \<noteq> [] \<and> base10 (TrimSpace input0) = Some v
          \<and> (v < min' \<or> max' < v) \<longrightarrow>
        fst (readInputNumber prompt min' max' w) = Inl (Errorf ''Input out of range: %d'' [D v]))
   \<and> (\<forall>v. \<not> err \<and> TrimSpace input0 \<noteq> [] \<and> base10 (TrimSpace input0) = Some v
          \<and> min' \<le> v \<and> v \<le> max' \<longrightarrow>
        fst (readInputNumber prompt min' max' w) = Inr v)"
proof (intro conjI allI impI)
  assume "err \<or> TrimSpace input0 = []"
  then show "fst (readInputNumber prompt min' max' w) = Inl (Errorf ''Input cancelled'' [])"
    by (simp add: readInputNumber_eq[OF assms] Let_def fail_eq)
next
  assume a: "\<not> err \<and> TrimSpace input0 \<noteq> [] \<and> base10 (TrimSpace input0) = None"
  then obtain k where "Atoi (TrimSpace input0) = Inl (NumError (TrimSpace input0) k)"
    using Atoi_None by blast
  with a show "\<exists>k. fst (readInputNumber prompt min' max' w) =
              Inl (Errorf ''Invalid input: %s'' [N (NumError (TrimSpace input0) k)])"
    by (simp add: readInputNumber_eq[OF assms] Let_def fail_eq)
next
  fix v
  assume a: "\<not> err \<and> TrimSpace input0 \<noteq> [] \<and> base10 (TrimSpace input0) = Some v
          \<and> (v < min' \<or> max' < v)"
  then have "Atoi (TrimSpace input0) = Inr v" by (simp add: Atoi_Some)
  with a show "fst (readInputNumber prompt min' max' w) = Inl (Errorf ''Input out of range: %d'' [D v])"
    by (simp add: readInputNumber_eq[OF assms] Let_def fail_eq)
next
  fix v
  assume a: "\<not> err \<and> TrimSpace input0 \<noteq> [] \<and> base10 (TrimSpace input0) = Some v
          \<and> min' \<le> v \<and> v \<le> max'"
  then have "Atoi (TrimSpace input0) = Inr v" by (simp add: Atoi_Some)
  with a show "fst (readInputNumber prompt min' max' w) = Inr v"
    by (simp add: readInputNumber_eq[OF assms] Let_def fail_eq)
qed

theorem readInputNumber_validation_order_witness:
  "fst (readInputNumber ''Which device?'' 0 4 \<lparr>stdin = [''2\<newline>''], trace = []\<rparr>) = Inr 2
 \<and> fst (readInputNumber ''Which device?'' 0 4 \<lparr>stdin = [''7\<newline>''], trace = []\<rparr>)
     = Inl (Errorf ''Input out of range: %d'' [D 7])
 \<and> (\<exists>k. fst (readInputNumber ''Which device?'' 0 4 \<lparr>stdin = [''abc\<newline>''], trace = []\<rparr>)
     = Inl (Errorf ''Invalid input: %s'' [N (NumError ''abc'' k)]))
 \<and> fst (readInputNumber ''Which device?'' 0 4 \<lparr>stdin = [''\<newline>''], trace = []\<rparr>)
     = Inl (Errorf ''Input cancelled'' [])
 \<and> fst (readInputNumber ''Which device?'' 0 4 \<lparr>stdin = [''2''], trace = []\<rparr>)
     = Inl (Errorf ''Input cancelled'' [])"
proof (intro conjI)
  have r: "fst (ReadString NL \<lparr>stdin = [''2\<newline>''], trace = []\<rparr>) = (''2\<newline>'', False)"
    by (simp add: ReadString_def)
  have t: "TrimSpace ''2\<newline>'' = ''2''" by code_simp
  have b: "base10 ''2'' = Some 2" by code_simp
  from readInputNumber_validation_order[OF r, of "''Which device?''" 0 4] t b
  show "fst (readInputNumber ''Which device?'' 0 4 \<lparr>stdin = [''2\<newline>''], trace = []\<rparr>) = Inr 2"
    by simp
next
  have r: "fst (ReadString NL \<lparr>stdin = [''7\<newline>''], trace = []\<rparr>) = (''7\<newline>'', False)"
    by (simp add: ReadString_def)
  have t: "TrimSpace ''7\<newline>'' = ''7''" by code_simp
  have b: "base10 ''7'' = Some 7" by code_simp
  from readInputNumber_validation_order[OF r, of "''Which device?''" 0 4] t b
  show "fst (readInputNumber ''Which device?'' 0 4 \<lparr>stdin = [''7\<newline>''], trace = []\<rparr>)
     = Inl (Errorf ''Input out of range: %d'' [D 7])"
    by simp
next
  have r: "fst (ReadString NL \<lparr>stdin = [''abc\<newline>''], trace = []\<rparr>) = (''abc\<newline>'', False)"
    by (simp add: ReadString_def)
  have t: "TrimSpace ''abc\<newline>'' = ''abc''" by code_simp
  have b: "base10 ''abc'' = None" by code_simp
  from readInputNumber_validation_order[OF r, of "''Which device?''" 0 4] t b
  show "\<exists>k. fst (readInputNumber ''Which device?'' 0 4 \<lparr>stdin = [''abc\<newline>''], trace = []\<rparr>)
     = Inl (Errorf ''Invalid input: %s'' [N (NumError ''abc'' k)])"
    by simp
next
  have r: "fst (ReadString NL \<lparr>stdin = [''\<newline>''], trace = []\<rparr>) = (''\<newline>'', False)"
    by (simp add: ReadString_def)
  have t: "TrimSpace ''\<newline>'' = []" by code_simp
  from readInputNumber_validation_order[OF r, of "''Which device?''" 0 4] t
  show "fst (readInputNumber ''Which device?'' 0 4 \<lparr>stdin = [''\<newline>''], trace = []\<rparr>)
     = Inl (Errorf ''Input cancelled'' [])"
    by simp
next
  have r: "fst (ReadString NL \<lparr>stdin = [''2''], trace = []\<rparr>) = (''2'', True)"
    by (simp add: ReadString_def)
  from readInputNumber_validation_order[OF r, of "''Which device?''" 0 4]
  show "fst (readInputNumber ''Which device?'' 0 4 \<lparr>stdin = [''2''], trace = []\<rparr>)
     = Inl (Errorf ''Input cancelled'' [])"
    by simp
qed

lemma readInputNumber_Inl_cases:
  "readInputNumber prompt min' max' w = (Inl e, w') \<Longrightarrow>
     e = Errorf ''Input cancelled'' [] \<or> (\<exists>ne. e = Errorf ''Invalid input: %s'' [N ne])
     \<or> (\<exists>i. e = Errorf ''Input out of range: %d'' [D i])"
proof -
  assume a: "readInputNumber prompt min' max' w = (Inl e, w')"
  obtain input0 err where r: "fst (ReadString NL w) = (input0, err)"
    by (cases "fst (ReadString NL w)") 
  from a show ?thesis
    by (auto simp: readInputNumber_eq[OF r] Let_def fail_eq split: sum.splits if_splits)
qed

lemma readInputNumber_trace:
  "\<exists>evs. trace (snd (readInputNumber prompt min' max' w)) =
          trace w @ Printf ''%s [%d-%d]: '' [S prompt, D min', D max'] # evs"
proof -
  obtain input0 err where r: "fst (ReadString NL w) = (input0, err)"
    by (cases "fst (ReadString NL w)") 
  show ?thesis
    by (simp add: readInputNumber_eq[OF r] Let_def fail_eq printf_def split: sum.split)
qed

subsection \<open>Choosing a device, choosing a package\<close>

lemma fold_preserves:
  assumes "\<And>x w. g (f x w) = g w"
  shows "g (fold f xs w) = g w"
  by (induction xs arbitrary: w) (simp_all add: assms)

lemma stdin_listDevices: "stdin (listDevices devices w) = stdin w"
  unfolding listDevices_def
  by (subst fold_preserves[where g = stdin]) (auto simp: stdin_printf)

lemma prompts_listDevices: "prompts (listDevices devices w) = prompts w"
  unfolding listDevices_def
  by (subst fold_preserves[where g = prompts]) (auto simp: prompts_printf)

lemma stdin_listPackages: "stdin (listPackages pkgs w) = stdin w"
  unfolding listPackages_def
  by (subst fold_preserves[where g = stdin]) (auto simp: stdin_printf)

lemma prompts_listPackages: "prompts (listPackages pkgs w) = prompts w"
  unfolding listPackages_def
  by (subst fold_preserves[where g = prompts]) (auto simp: prompts_printf)

lemma at_index_in_range:
  "0 \<le> index \<Longrightarrow> index \<le> int (length xs) - 1 \<Longrightarrow> at_index xs index w = (Inr (xs ! nat index), w)"
  by (simp add: at_index_def)

lemma getDevice_matched:
  "deviceSerial \<noteq> [] \<Longrightarrow> find (\<lambda>device. Serial device = deviceSerial) devices = Some device \<Longrightarrow>
   getDevice deviceSerial devices w = (Inr device, w)"
  by (simp add: getDevice_def)

lemma getDevice_unmatched:
  "deviceSerial \<noteq> [] \<Longrightarrow> find (\<lambda>device. Serial device = deviceSerial) devices = None \<Longrightarrow>
   getDevice deviceSerial devices w =
     getDevice [] devices (printf ''Warning: Could not locate device.\<newline>'' [] w)"
  by (simp add: getDevice_def)

lemma getDevice_single:
  "getDevice [] [device] w = (Inr device, printf ''Device: %s\<newline>'' [S (Serial device)] w)"
  by (simp add: getDevice_def)

lemma getDevice_prompt:
  "length devices \<noteq> 1 \<Longrightarrow>
   getDevice [] devices w =
     (case readInputNumber ''Which device?'' 0 (int (length devices) - 1) (listDevices devices w) of
        (Inl err, w4) \<Rightarrow> (Inl err, w4)
      | (Inr index, w4) \<Rightarrow> (Inr (devices ! nat index), w4))"
proof -
  assume n: "length devices \<noteq> 1"
  obtain r w4 where rw:
    "readInputNumber ''Which device?'' 0 (int (length devices) - 1) (listDevices devices w) = (r, w4)"
    by (cases "readInputNumber ''Which device?'' 0 (int (length devices) - 1) (listDevices devices w)")
  show ?thesis
  proof (cases r)
    case (Inl e)
    with n rw show ?thesis by (simp add: getDevice_def Let_def)
  next
    case (Inr index)
    with rw readInputNumber_Inr have "0 \<le> index \<and> index \<le> int (length devices) - 1" by blast
    then have "at_index devices index w4 = (Inr (devices ! nat index), w4)"
      by (simp add: at_index_in_range)
    with n rw Inr show ?thesis by (simp add: getDevice_def Let_def)
  qed
qed

lemma getPackage_matched:
  "packageName \<noteq> [] \<Longrightarrow> find (\<lambda>pkg. Name pkg = packageName) pkgs = Some pkg \<Longrightarrow>
   getPackage packageName pkgs w = (Inr pkg, w)"
  by (simp add: getPackage_def)

lemma getPackage_unmatched:
  "packageName \<noteq> [] \<Longrightarrow> find (\<lambda>pkg. Name pkg = packageName) pkgs = None \<Longrightarrow>
   getPackage packageName pkgs w = fail ''Could not locate package: %s'' [S packageName] w"
  by (simp add: getPackage_def)

lemma getPackage_prompt:
  "getPackage [] pkgs w =
     (case readInputNumber ''Which package?'' 0 (int (length pkgs) - 1) (listPackages pkgs w) of
        (Inl err, w3) \<Rightarrow> (Inl err, w3)
      | (Inr index, w3) \<Rightarrow> (Inr (pkgs ! nat index), w3))"
proof -
  obtain r w3 where rw:
    "readInputNumber ''Which package?'' 0 (int (length pkgs) - 1) (listPackages pkgs w) = (r, w3)"
    by (cases "readInputNumber ''Which package?'' 0 (int (length pkgs) - 1) (listPackages pkgs w)")
  show ?thesis
  proof (cases r)
    case (Inl e)
    with rw show ?thesis by (simp add: getPackage_def Let_def)
  next
    case (Inr index)
    with rw readInputNumber_Inr have "0 \<le> index \<and> index \<le> int (length pkgs) - 1" by blast
    then have "at_index pkgs index w3 = (Inr (pkgs ! nat index), w3)"
      by (simp add: at_index_in_range)
    with rw Inr show ?thesis by (simp add: getPackage_def Let_def)
  qed
qed

lemma find_first_match:
  "x \<in> set xs \<Longrightarrow> P x \<Longrightarrow> \<exists>y. find P xs = Some y \<and> y \<in> set xs \<and> P y"
  by (induction xs) auto

lemma find_no_match: "\<forall>x\<in>set xs. \<not> P x \<Longrightarrow> find P xs = None"
  by (simp add: find_None_iff)

lemma find_Some_member: "find P xs = Some y \<Longrightarrow> y \<in> set xs \<and> P y"
  by (induction xs) (auto split: if_splits)

lemma getDevice_prompt_member:
  "length devices \<noteq> 1 \<Longrightarrow> getDevice [] devices w = (r, w') \<Longrightarrow>
   (\<forall>device. r = Inr device \<longrightarrow> device \<in> set devices) \<and>
   (\<forall>i n. r \<noteq> Inl (PanicIndexOutOfRange i n)) \<and>
   prompts w' = Suc (prompts w) \<and> stdin w' = tl (stdin w)"
proof -
  assume n: "length devices \<noteq> 1" and g: "getDevice [] devices w = (r, w')"
  obtain r0 w4 where rw:
    "readInputNumber ''Which device?'' 0 (int (length devices) - 1) (listDevices devices w) = (r0, w4)"
    by (cases "readInputNumber ''Which device?'' 0 (int (length devices) - 1) (listDevices devices w)")
  have w4: "prompts w4 = Suc (prompts w) \<and> stdin w4 = tl (stdin w)"
    using readInputNumber_prompts[of "''Which device?''" 0 "int (length devices) - 1" "listDevices devices w"]
      readInputNumber_stdin[of "''Which device?''" 0 "int (length devices) - 1" "listDevices devices w"]
    by (simp add: rw prompts_listDevices stdin_listDevices)
  show ?thesis
  proof (cases r0)
    case (Inl e)
    with rw readInputNumber_Inl obtain format args where "e = Errorf format args" by blast
    with g n rw Inl w4 show ?thesis by (auto simp: getDevice_prompt)
  next
    case (Inr index)
    with rw readInputNumber_Inr have "0 \<le> index \<and> index \<le> int (length devices) - 1" by blast
    then have "nat index < length devices" by auto
    then have "devices ! nat index \<in> set devices" by simp
    with g n rw Inr w4 show ?thesis by (auto simp: getDevice_prompt)
  qed
qed

lemma getPackage_prompt_member:
  "getPackage [] pkgs w = (r, w') \<Longrightarrow>
   (\<forall>pkg. r = Inr pkg \<longrightarrow> pkg \<in> set pkgs) \<and>
   (\<forall>i n. r \<noteq> Inl (PanicIndexOutOfRange i n)) \<and>
   prompts w' = Suc (prompts w) \<and> stdin w' = tl (stdin w)"
proof -
  assume g: "getPackage [] pkgs w = (r, w')"
  obtain r0 w4 where rw:
    "readInputNumber ''Which package?'' 0 (int (length pkgs) - 1) (listPackages pkgs w) = (r0, w4)"
    by (cases "readInputNumber ''Which package?'' 0 (int (length pkgs) - 1) (listPackages pkgs w)")
  have w4: "prompts w4 = Suc (prompts w) \<and> stdin w4 = tl (stdin w)"
    using readInputNumber_prompts[of "''Which package?''" 0 "int (length pkgs) - 1" "listPackages pkgs w"]
      readInputNumber_stdin[of "''Which package?''" 0 "int (length pkgs) - 1" "listPackages pkgs w"]
    by (simp add: rw prompts_listPackages stdin_listPackages)
  show ?thesis
  proof (cases r0)
    case (Inl e)
    with rw readInputNumber_Inl obtain format args where "e = Errorf format args" by blast
    with g rw Inl w4 show ?thesis by (auto simp: getPackage_prompt)
  next
    case (Inr index)
    with rw readInputNumber_Inr have "0 \<le> index \<and> index \<le> int (length pkgs) - 1" by blast
    then have "nat index < length pkgs" by auto
    then have "pkgs ! nat index \<in> set pkgs" by simp
    with g rw Inr w4 show ?thesis by (auto simp: getPackage_prompt)
  qed
qed

lemma getDevice_member:
  "getDevice deviceSerial devices w = (r, w') \<Longrightarrow>
   (\<forall>device. r = Inr device \<longrightarrow> device \<in> set devices) \<and>
   (\<forall>i n. r \<noteq> Inl (PanicIndexOutOfRange i n))"
proof -
  assume g: "getDevice deviceSerial devices w = (r, w')"
  have none: "\<And>w r w'. getDevice [] devices w = (r, w') \<Longrightarrow>
     (\<forall>device. r = Inr device \<longrightarrow> device \<in> set devices) \<and>
     (\<forall>i n. r \<noteq> Inl (PanicIndexOutOfRange i n))"
  proof -
    fix w r w' assume g0: "getDevice [] devices w = (r, w')"
    show "(\<forall>device. r = Inr device \<longrightarrow> device \<in> set devices) \<and>
     (\<forall>i n. r \<noteq> Inl (PanicIndexOutOfRange i n))"
    proof (cases "length devices = 1")
      case True
      then obtain device where "devices = [device]" by (cases devices) auto
      with g0 show ?thesis by (auto simp: getDevice_single)
    next
      case False
      from getDevice_prompt_member[OF False g0] show ?thesis by simp
    qed
  qed
  show ?thesis
  proof (cases "deviceSerial = []")
    case True
    with g none show ?thesis by blast
  next
    case ne: False
    show ?thesis
    proof (cases "find (\<lambda>device. Serial device = deviceSerial) devices")
      case None
      from g none show ?thesis unfolding getDevice_unmatched[OF ne None] by blast
    next
      case (Some device)
      then have "device \<in> set devices" using find_Some_member by fastforce
      with g show ?thesis by (auto simp: getDevice_matched[OF ne Some])
    qed
  qed
qed

lemma getPackage_member:
  "getPackage packageName pkgs w = (r, w') \<Longrightarrow>
   (\<forall>pkg. r = Inr pkg \<longrightarrow> pkg \<in> set pkgs) \<and>
   (\<forall>i n. r \<noteq> Inl (PanicIndexOutOfRange i n))"
proof -
  assume g: "getPackage packageName pkgs w = (r, w')"
  show ?thesis
  proof (cases "packageName = []")
    case True
    with g getPackage_prompt_member[of pkgs w r w'] show ?thesis by simp
  next
    case ne: False
    show ?thesis
    proof (cases "find (\<lambda>pkg. Name pkg = packageName) pkgs")
      case None
      from g show ?thesis by (auto simp: getPackage_unmatched[OF ne None] fail_eq)
    next
      case (Some pkg)
      then have "pkg \<in> set pkgs" using find_Some_member by fastforce
      with g show ?thesis by (auto simp: getPackage_matched[OF ne Some])
    qed
  qed
qed

lemma getDevice_single_any:
  "fst (getDevice deviceSerial [device] w) = Inr device \<and>
   prompts (snd (getDevice deviceSerial [device] w)) = prompts w \<and>
   stdin (snd (getDevice deviceSerial [device] w)) = stdin w"
  by (simp add: getDevice_def Let_def prompts_printf stdin_printf)

text \<open>
  Claim C9.  A selection that returns without error returns an element of the
  candidate list: a device of \<open>devices\<close>, a package of \<open>pkgs\<close>; an index
  that \<^verbatim>\<open>readInputNumber\<close> returns for the bounds \<open>[0, len - 1]\<close> is a
  valid index of the list; and neither selection ever indexes out of range.
\<close>

theorem selection_returns_candidate:
  "(fst (getDevice deviceSerial devices w) = Inr device \<longrightarrow> device \<in> set devices)
 \<and> (fst (getPackage packageName pkgs w) = Inr pkg \<longrightarrow> pkg \<in> set pkgs)
 \<and> (fst (readInputNumber prompt 0 (int (length xs) - 1) w) = Inr index \<longrightarrow>
       0 \<le> index \<and> index \<le> int (length xs) - 1 \<and> nat index < length xs)
 \<and> fst (getDevice deviceSerial devices w) \<noteq> Inl (PanicIndexOutOfRange i n)
 \<and> fst (getPackage packageName pkgs w) \<noteq> Inl (PanicIndexOutOfRange i n)"
proof -
  obtain rd wd where d: "getDevice deviceSerial devices w = (rd, wd)"
    by (cases "getDevice deviceSerial devices w")
  obtain rp wp where p: "getPackage packageName pkgs w = (rp, wp)"
    by (cases "getPackage packageName pkgs w")
  obtain rn wn where r: "readInputNumber prompt 0 (int (length xs) - 1) w = (rn, wn)"
    by (cases "readInputNumber prompt 0 (int (length xs) - 1) w")
  have "rn = Inr index \<longrightarrow> 0 \<le> index \<and> index \<le> int (length xs) - 1 \<and> nat index < length xs"
    using readInputNumber_Inr[of prompt 0 "int (length xs) - 1" w index wn] r by auto
  with getDevice_member[OF d] getPackage_member[OF p] d p r show ?thesis by simp
qed

theorem selection_returns_candidate_witness:
  "fst (getDevice [] [\<lparr>Serial = ''A'', State = ''device''\<rparr>, \<lparr>Serial = ''B'', State = ''device''\<rparr>]
          \<lparr>stdin = [''1\<newline>''], trace = []\<rparr>) = Inr \<lparr>Serial = ''B'', State = ''device''\<rparr>
 \<and> \<lparr>Serial = ''B'', State = ''device''\<rparr>
       \<in> set [\<lparr>Serial = ''A'', State = ''device''\<rparr>, \<lparr>Serial = ''B'', State = ''device''\<rparr>]
 \<and> fst (getPackage [] [\<lparr>Name = ''com.foo'', Path = ''/data/app/com.foo.apk''\<rparr>,
                        \<lparr>Name = ''com.bar'', Path = ''/data/app/com.bar.apk''\<rparr>]
          \<lparr>stdin = [''1\<newline>''], trace = []\<rparr>) = Inr \<lparr>Name = ''com.bar'', Path = ''/data/app/com.bar.apk''\<rparr>
 \<and> \<lparr>Name = ''com.bar'', Path = ''/data/app/com.bar.apk''\<rparr>
       \<in> set [\<lparr>Name = ''com.foo'', Path = ''/data/app/com.foo.apk''\<rparr>,
              \<lparr>Name = ''com.bar'', Path = ''/data/app/com.bar.apk''\<rparr>]
 \<and> fst (readInputNumber ''Which device?'' 0 (int (length [''x'', ''y'']) - 1)
          \<lparr>stdin = [''1\<newline>''], trace = []\<rparr>) = Inr 1
 \<and> nat 1 < length [''x'', ''y'']"
proof -
  have h1: "fst (getDevice [] [\<lparr>Serial = ''A'', State = ''device''\<rparr>, \<lparr>Serial = ''B'', State = ''device''\<rparr>]
          \<lparr>stdin = [''1\<newline>''], trace = []\<rparr>) = Inr \<lparr>Serial = ''B'', State = ''device''\<rparr>"
    by code_simp
  have h2: "fst (getPackage [] [\<lparr>Name = ''com.foo'', Path = ''/data/app/com.foo.apk''\<rparr>,
                        \<lparr>Name = ''com.bar'', Path = ''/data/app/com.bar.apk''\<rparr>]
          \<lparr>stdin = [''1\<newline>''], trace = []\<rparr>) = Inr \<lparr>Name = ''com.bar'', Path = ''/data/app/com.bar.apk''\<rparr>"
    by code_simp
  have h3: "fst (readInputNumber ''Which device?'' 0 (int (length [''x'', ''y'']) - 1)
          \<lparr>stdin = [''1\<newline>''], trace = []\<rparr>) = Inr 1"
    by code_simp
  from selection_returns_candidate[of "[]"
      "[\<lparr>Serial = ''A'', State = ''device''\<rparr>, \<lparr>Serial = ''B'', State = ''device''\<rparr>]"
      "\<lparr>stdin = [''1\<newline>''], trace = []\<rparr>" "\<lparr>Serial = ''B'', State = ''device''\<rparr>"
      "[]" "[\<lparr>Name = ''com.foo'', Path = ''/data/app/com.foo.apk''\<rparr>,
             \<lparr>Name = ''com.bar'', Path = ''/data/app/com.bar.apk''\<rparr>]"
      "\<lparr>Name = ''com.bar'', Path = ''/data/app/com.bar.apk''\<rparr>"
      "''Which device?''" "[''x'', ''y'']" 1]
    h1 h2 h3
  show ?thesis by simp
qed

text \<open>
  Claim C10.  With no device at all, \<^verbatim>\<open>getDevice\<close> never returns a device,
  whatever serial was asked for and whatever is typed: it asks
  "Which device? [0--1]", bounds that no number satisfies, and returns one of
  the three errors of \<^verbatim>\<open>readInputNumber\<close>.
\<close>

theorem getDevice_no_devices_fails:
  "(\<exists>format args. fst (getDevice deviceSerial [] w) = Inl (Errorf format args)
       \<and> format \<in> {''Input cancelled'', ''Invalid input: %s'', ''Input out of range: %d''})
 \<and> Printf ''%s [%d-%d]: '' [S ''Which device?'', D 0, D (- 1)]
       \<in> set (trace (snd (getDevice deviceSerial [] w)))
 \<and> prompts (snd (getDevice deviceSerial [] w)) = Suc (prompts w)"
proof -
  have none: "\<And>w. (\<exists>format args. fst (getDevice [] [] w) = Inl (Errorf format args)
       \<and> format \<in> {''Input cancelled'', ''Invalid input: %s'', ''Input out of range: %d''})
     \<and> Printf ''%s [%d-%d]: '' [S ''Which device?'', D 0, D (- 1)]
       \<in> set (trace (snd (getDevice [] [] w)))
     \<and> prompts (snd (getDevice [] [] w)) = Suc (prompts w)"
  proof -
    fix w
    obtain r w4 where rw: "readInputNumber ''Which device?'' 0 (- 1) (listDevices [] w) = (r, w4)"
      by (cases "readInputNumber ''Which device?'' 0 (- 1) (listDevices [] w)")
    have g: "getDevice [] [] w =
       (case (r, w4) of (Inl err, w4) \<Rightarrow> (Inl err, w4) | (Inr index, w4) \<Rightarrow> (Inr ([] ! nat index), w4))"
      using getDevice_prompt[of "[]" w] rw by simp
    have tr: "Printf ''%s [%d-%d]: '' [S ''Which device?'', D 0, D (- 1)] \<in> set (trace w4)"
      using readInputNumber_trace[of "''Which device?''" 0 "- 1" "listDevices [] w"] rw by auto
    have pr: "prompts w4 = Suc (prompts w)"
      using readInputNumber_prompts[of "''Which device?''" 0 "- 1" "listDevices [] w"] rw
      by (simp add: prompts_listDevices)
    show "(\<exists>format args. fst (getDevice [] [] w) = Inl (Errorf format args)
       \<and> format \<in> {''Input cancelled'', ''Invalid input: %s'', ''Input out of range: %d''})
     \<and> Printf ''%s [%d-%d]: '' [S ''Which device?'', D 0, D (- 1)]
       \<in> set (trace (snd (getDevice [] [] w)))
     \<and> prompts (snd (getDevice [] [] w)) = Suc (prompts w)"
    proof (cases r)
      case (Inr index)
      with rw readInputNumber_Inr have "0 \<le> index \<and> index \<le> - 1" by blast
      then have False by linarith
      then show ?thesis ..
    next
      case (Inl e)
      with rw readInputNumber_Inl_cases[of "''Which device?''" 0 "- 1" "listDevices [] w" e w4]
      have "e = Errorf ''Input cancelled'' [] \<or> (\<exists>ne. e = Errorf ''Invalid input: %s'' [N ne])
            \<or> (\<exists>i. e = Errorf ''Input out of range: %d'' [D i])" by simp
      with g Inl tr pr show ?thesis by auto
    qed
  qed
  show ?thesis
  proof (cases "deviceSerial = []")
    case True
    with none show ?thesis by simp
  next
    case False
    have "getDevice deviceSerial [] w =
            getDevice [] [] (printf ''Warning: Could not locate device.\<newline>'' [] w)"
      by (rule getDevice_unmatched[OF False]) simp
    with none[of "printf ''Warning: Could not locate device.\<newline>'' [] w"]
    show ?thesis by (simp add: prompts_printf)
  qed
qed

theorem getDevice_no_devices_fails_witness:
  "fst (getDevice ''emulator-5554'' [] \<lparr>stdin = [''0\<newline>''], trace = []\<rparr>)
     = Inl (Errorf ''Input out of range: %d'' [D 0])
 \<and> Printf ''%s [%d-%d]: '' [S ''Which device?'', D 0, D (- 1)]
       \<in> set (trace (snd (getDevice ''emulator-5554'' [] \<lparr>stdin = [''0\<newline>''], trace = []\<rparr>)))"
proof -
  have "fst (getDevice ''emulator-5554'' [] \<lparr>stdin = [''0\<newline>''], trace = []\<rparr>)
     = Inl (Errorf ''Input out of range: %d'' [D 0])"
    by code_simp
  with getDevice_no_devices_fails[of "''emulator-5554''" "\<lparr>stdin = [''0\<newline>''], trace = []\<rparr>"]
  show ?thesis by simp
qed

text \<open>
  Claim C4.  When a serial was asked for and no candidate has exactly that
  \<^verbatim>\<open>Serial\<close>, \<^verbatim>\<open>getDevice\<close> prints a warning and goes on as if no serial
  had been given: a single device is returned without a prompt, any other
  number of devices leads to the prompt.  When some candidate has that serial,
  the first such candidate is returned at once, the world untouched: nothing
  printed, nothing read.
\<close>

theorem getDevice_serial_resolution:
  "(deviceSerial \<noteq> [] \<and> (\<forall>device\<in>set devices. Serial device \<noteq> deviceSerial) \<longrightarrow>
      getDevice deviceSerial devices w =
        getDevice [] devices (printf ''Warning: Could not locate device.\<newline>'' [] w)
      \<and> (length devices = 1 \<longrightarrow>
            getDevice deviceSerial devices w =
              (Inr (hd devices),
               printf ''Device: %s\<newline>'' [S (Serial (hd devices))]
                 (printf ''Warning: Could not locate device.\<newline>'' [] w)))
      \<and> (length devices \<noteq> 1 \<longrightarrow>
            prompts (snd (getDevice deviceSerial devices w)) = Suc (prompts w)))
 \<and> (deviceSerial \<noteq> [] \<and> (\<exists>device\<in>set devices. Serial device = deviceSerial) \<longrightarrow>
      (\<exists>device. getDevice deviceSerial devices w = (Inr device, w)
         \<and> find (\<lambda>device. Serial device = deviceSerial) devices = Some device
         \<and> device \<in> set devices \<and> Serial device = deviceSerial))"
proof (intro conjI impI)
  assume a: "deviceSerial \<noteq> [] \<and> (\<forall>device\<in>set devices. Serial device \<noteq> deviceSerial)"
  then have ne: "deviceSerial \<noteq> []"
    and none: "find (\<lambda>device. Serial device = deviceSerial) devices = None"
    by (simp_all add: find_None_iff)
  let ?w = "printf ''Warning: Could not locate device.\<newline>'' [] w"
  show eq: "getDevice deviceSerial devices w = getDevice [] devices ?w"
    by (rule getDevice_unmatched[OF ne none])
  {
    assume "length devices = 1"
    then obtain device where "devices = [device]" by (cases devices) auto
    with eq show "getDevice deviceSerial devices w =
              (Inr (hd devices), printf ''Device: %s\<newline>'' [S (Serial (hd devices))] ?w)"
      by (simp add: getDevice_single)
  }
  {
    assume n: "length devices \<noteq> 1"
    obtain r w' where g: "getDevice [] devices ?w = (r, w')" by (cases "getDevice [] devices ?w")
    from getDevice_prompt_member[OF n g] g
    show "prompts (snd (getDevice deviceSerial devices w)) = Suc (prompts w)"
      by (simp add: eq prompts_printf)
  }
next
  assume a: "deviceSerial \<noteq> [] \<and> (\<exists>device\<in>set devices. Serial device = deviceSerial)"
  then have ne: "deviceSerial \<noteq> []" by simp
  from a obtain d where "d \<in> set devices" and "Serial d = deviceSerial" by blast
  then obtain device where f: "find (\<lambda>device. Serial device = deviceSerial) devices = Some device"
    and m: "device \<in> set devices" and s: "Serial device = deviceSerial"
    using find_first_match[of d devices "\<lambda>device. Serial device = deviceSerial"] by blast
  from getDevice_matched[OF ne f] f m s
  show "\<exists>device. getDevice deviceSerial devices w = (Inr device, w)
         \<and> find (\<lambda>device. Serial device = deviceSerial) devices = Some device
         \<and> device \<in> set devices \<and> Serial device = deviceSerial"
    by blast
qed

theorem getDevice_serial_resolution_witness:
  "getDevice ''X'' [\<lparr>Serial = ''A'', State = ''device''\<rparr>] \<lparr>stdin = [], trace = []\<rparr> =
     (Inr \<lparr>Serial = ''A'', State = ''device''\<rparr>,
      \<lparr>stdin = [], trace = [Printf ''Warning: Could not locate device.\<newline>'' [],
                             Printf ''Device: %s\<newline>'' [S ''A'']]\<rparr>)
 \<and> prompts (snd (getDevice ''X'' [\<lparr>Serial = ''A'', State = ''device''\<rparr>,
                                  \<lparr>Serial = ''B'', State = ''offline''\<rparr>]
                   \<lparr>stdin = [''1\<newline>''], trace = []\<rparr>)) = Suc 0
 \<and> getDevice ''B'' [\<lparr>Serial = ''A'', State = ''device''\<rparr>, \<lparr>Serial = ''B'', State = ''offline''\<rparr>]
       \<lparr>stdin = [''0\<newline>''], trace = []\<rparr> =
     (Inr \<lparr>Serial = ''B'', State = ''offline''\<rparr>, \<lparr>stdin = [''0\<newline>''], trace = []\<rparr>)"
proof (intro conjI)
  from getDevice_serial_resolution[of "''X''" "[\<lparr>Serial = ''A'', State = ''device''\<rparr>]"
      "\<lparr>stdin = [], trace = []\<rparr>"]
  show "getDevice ''X'' [\<lparr>Serial = ''A'', State = ''device''\<rparr>] \<lparr>stdin = [], trace = []\<rparr> =
     (Inr \<lparr>Serial = ''A'', State = ''device''\<rparr>,
      \<lparr>stdin = [], trace = [Printf ''Warning: Could not locate device.\<newline>'' [],
                             Printf ''Device: %s\<newline>'' [S ''A'']]\<rparr>)"
    by (auto simp: printf_def)
next
  from getDevice_serial_resolution[of "''X''"
      "[\<lparr>Serial = ''A'', State = ''device''\<rparr>, \<lparr>Serial = ''B'', State = ''offline''\<rparr>]"
      "\<lparr>stdin = [''1\<newline>''], trace = []\<rparr>"]
  show "prompts (snd (getDevice ''X'' [\<lparr>Serial = ''A'', State = ''device''\<rparr>,
                                  \<lparr>Serial = ''B'', State = ''offline''\<rparr>]
                   \<lparr>stdin = [''1\<newline>''], trace = []\<rparr>)) = Suc 0"
    by (auto simp: prompts_def)
next
  from getDevice_serial_resolution[of "''B''"
      "[\<lparr>Serial = ''A'', State = ''device''\<rparr>, \<lparr>Serial = ''B'', State = ''offline''\<rparr>]"
      "\<lparr>stdin = [''0\<newline>''], trace = []\<rparr>"]
  show "getDevice ''B'' [\<lparr>Serial = ''A'', State = ''device''\<rparr>, \<lparr>Serial = ''B'', State = ''offline''\<rparr>]
       \<lparr>stdin = [''0\<newline>''], trace = []\<rparr> =
     (Inr \<lparr>Serial = ''B'', State = ''offline''\<rparr>, \<lparr>stdin = [''0\<newline>''], trace = []\<rparr>)"
    by auto
qed

text \<open>
  Claim C5.  When a package name was asked for and no candidate has exactly
  that \<^verbatim>\<open>Name\<close>, \<^verbatim>\<open>getPackage\<close> fails with "Could not locate package",
  having printed that error only: no prompt, nothing read.  When some
  candidate has that name, the first such candidate is returned at once, the
  world untouched.
\<close>

theorem getPackage_name_resolution:
  "(packageName \<noteq> [] \<and> (\<forall>pkg\<in>set pkgs. Name pkg \<noteq> packageName) \<longrightarrow>
      getPackage packageName pkgs w =
        (Inl (Errorf ''Could not locate package: %s'' [S packageName]),
         w\<lparr>trace := trace w @
              [Fprintf_Stderr ''%s\<newline>'' (Errorf ''Could not locate package: %s'' [S packageName])]\<rparr>)
      \<and> prompts (snd (getPackage packageName pkgs w)) = prompts w
      \<and> stdin (snd (getPackage packageName pkgs w)) = stdin w)
 \<and> (packageName \<noteq> [] \<and> (\<exists>pkg\<in>set pkgs. Name pkg = packageName) \<longrightarrow>
      (\<exists>pkg. getPackage packageName pkgs w = (Inr pkg, w)
         \<and> find (\<lambda>pkg. Name pkg = packageName) pkgs = Some pkg
         \<and> pkg \<in> set pkgs \<and> Name pkg = packageName))"
proof (intro conjI impI)
  assume a: "packageName \<noteq> [] \<and> (\<forall>pkg\<in>set pkgs. Name pkg \<noteq> packageName)"
  then have ne: "packageName \<noteq> []"
    and none: "find (\<lambda>pkg. Name pkg = packageName) pkgs = None"
    by (simp_all add: find_None_iff)
  show "getPackage packageName pkgs w =
        (Inl (Errorf ''Could not locate package: %s'' [S packageName]),
         w\<lparr>trace := trace w @
              [Fprintf_Stderr ''%s\<newline>'' (Errorf ''Could not locate package: %s'' [S packageName])]\<rparr>)"
    by (simp add: getPackage_unmatched[OF ne none] fail_eq)
  show "prompts (snd (getPackage packageName pkgs w)) = prompts w"
    by (simp add: getPackage_unmatched[OF ne none] prompts_fail)
  show "stdin (snd (getPackage packageName pkgs w)) = stdin w"
    by (simp add: getPackage_unmatched[OF ne none] stdin_fail)
next
  assume a: "packageName \<noteq> [] \<and> (\<exists>pkg\<in>set pkgs. Name pkg = packageName)"
  then have ne: "packageName \<noteq> []" by simp
  from a obtain p where "p \<in> set pkgs" and "Name p = packageName" by blast
  then obtain pkg where f: "find (\<lambda>pkg. Name pkg = packageName) pkgs = Some pkg"
    and m: "pkg \<in> set pkgs" and s: "Name pkg = packageName"
    using find_first_match[of p pkgs "\<lambda>pkg. Name pkg = packageName"] by blast
  from getPackage_matched[OF ne f] f m s
  show "\<exists>pkg. getPackage packageName pkgs w = (Inr pkg, w)
         \<and> find (\<lambda>pkg. Name pkg = packageName) pkgs = Some pkg
         \<and> pkg \<in> set pkgs \<and> Name pkg = packageName"
    by blast
qed

theorem getPackage_name_resolution_witness:
  "getPackage ''com.baz'' [\<lparr>Name = ''com.foo'', Path = ''/data/app/com.foo.apk''\<rparr>,
                          \<lparr>Name = ''com.bar'', Path = ''/data/app/com.bar.apk''\<rparr>]
     \<lparr>stdin = [''0\<newline>''], trace = []\<rparr> =
     (Inl (Errorf ''Could not locate package: %s'' [S ''com.baz'']),
      \<lparr>stdin = [''0\<newline>''],
        trace = [Fprintf_Stderr ''%s\<newline>'' (Errorf ''Could not locate package: %s'' [S ''com.baz''])]\<rparr>)
 \<and> getPackage ''com.bar'' [\<lparr>Name = ''com.foo'', Path = ''/data/app/com.foo.apk''\<rparr>,
                          \<lparr>Name = ''com.bar'', Path = ''/data/app/com.bar.apk''\<rparr>]
     \<lparr>stdin = [''0\<newline>''], trace = []\<rparr> =
     (Inr \<lparr>Name = ''com.bar'', Path = ''/data/app/com.bar.apk''\<rparr>, \<lparr>stdin = [''0\<newline>''], trace = []\<rparr>)"
proof (intro conjI)
  from getPackage_name_resolution[of "''com.baz''"
      "[\<lparr>Name = ''com.foo'', Path = ''/data/app/com.foo.apk''\<rparr>,
        \<lparr>Name = ''com.bar'', Path = ''/data/app/com.bar.apk''\<rparr>]"
      "\<lparr>stdin = [''0\<newline>''], trace = []\<rparr>"]
  show "getPackage ''com.baz'' [\<lparr>Name = ''com.foo'', Path = ''/data/app/com.foo.apk''\<rparr>,
                          \<lparr>Name = ''com.bar'', Path = ''/data/app/com.bar.apk''\<rparr>]
     \<lparr>stdin = [''0\<newline>''], trace = []\<rparr> =
     (Inl (Errorf ''Could not locate package: %s'' [S ''com.baz'']),
      \<lparr>stdin = [''0\<newline>''],
        trace = [Fprintf_Stderr ''%s\<newline>'' (Errorf ''Could not locate package: %s'' [S ''com.baz''])]\<rparr>)"
    by simp
next
  from getPackage_name_resolution[of "''com.bar''"
      "[\<lparr>Name = ''com.foo'', Path = ''/data/app/com.foo.apk''\<rparr>,
        \<lparr>Name = ''com.bar'', Path = ''/data/app/com.bar.apk''\<rparr>]"
      "\<lparr>stdin = [''0\<newline>''], trace = []\<rparr>"]
  show "getPackage ''com.bar'' [\<lparr>Name = ''com.foo'', Path = ''/data/app/com.foo.apk''\<rparr>,
                          \<lparr>Name = ''com.bar'', Path = ''/data/app/com.bar.apk''\<rparr>]
     \<lparr>stdin = [''0\<newline>''], trace = []\<rparr> =
     (Inr \<lparr>Name = ''com.bar'', Path = ''/data/app/com.bar.apk''\<rparr>, \<lparr>stdin = [''0\<newline>''], trace = []\<rparr>)"
    by auto
qed

text \<open>
  Claim C1, as amended.  Over a list of exactly one device, \<^verbatim>\<open>getDevice\<close>
  returns that device without a prompt (no prompt is printed, nothing is
  read), whatever serial was asked for.  \<^verbatim>\<open>getPackage\<close> has no such
  shortcut.  Over a list of exactly one package, it returns the package without
  a prompt only when the name asked for is the package's \<^verbatim>\<open>Name\<close>; when a
  different name was asked for it fails with "Could not locate package",
  without a prompt; when no name was asked for it prompts, and returns the
  package only if \<^verbatim>\<open>readInputNumber\<close> accepts what is typed for the bounds
  \<open>[0, 0]\<close>.
\<close>

theorem single_candidate_selection:
  "fst (getDevice deviceSerial [device] w) = Inr device
 \<and> prompts (snd (getDevice deviceSerial [device] w)) = prompts w
 \<and> stdin (snd (getDevice deviceSerial [device] w)) = stdin w
 \<and> (packageName \<noteq> [] \<and> Name pkg = packageName \<longrightarrow>
       getPackage packageName [pkg] w = (Inr pkg, w))
 \<and> (packageName \<noteq> [] \<and> Name pkg \<noteq> packageName \<longrightarrow>
       fst (getPackage packageName [pkg] w) = Inl (Errorf ''Could not locate package: %s'' [S packageName])
       \<and> prompts (snd (getPackage packageName [pkg] w)) = prompts w
       \<and> stdin (snd (getPackage packageName [pkg] w)) = stdin w)
 \<and> (packageName = [] \<longrightarrow>
       prompts (snd (getPackage packageName [pkg] w)) = Suc (prompts w)
       \<and> stdin (snd (getPackage packageName [pkg] w)) = tl (stdin w)
       \<and> fst (getPackage packageName [pkg] w) =
           (case fst (readInputNumber ''Which package?'' 0 0 (listPackages [pkg] w)) of
              Inl err \<Rightarrow> Inl err | Inr index \<Rightarrow> Inr pkg))"
proof (intro conjI impI)
  show "fst (getDevice deviceSerial [device] w) = Inr device"
    and "prompts (snd (getDevice deviceSerial [device] w)) = prompts w"
    and "stdin (snd (getDevice deviceSerial [device] w)) = stdin w"
    using getDevice_single_any[of deviceSerial device w] by simp_all
next
  assume "packageName \<noteq> [] \<and> Name pkg = packageName"
  then show "getPackage packageName [pkg] w = (Inr pkg, w)"
    by (simp add: getPackage_def)
next
  assume a: "packageName \<noteq> [] \<and> Name pkg \<noteq> packageName"
  then have u: "getPackage packageName [pkg] w = fail ''Could not locate package: %s'' [S packageName] w"
    by (simp add: getPackage_def)
  show "fst (getPackage packageName [pkg] w) = Inl (Errorf ''Could not locate package: %s'' [S packageName])"
    by (simp add: u fail_eq)
  show "prompts (snd (getPackage packageName [pkg] w)) = prompts w"
    by (simp add: u prompts_fail)
  show "stdin (snd (getPackage packageName [pkg] w)) = stdin w"
    by (simp add: u stdin_fail)
next
  assume e: "packageName = []"
  obtain r w' where g: "getPackage [] [pkg] w = (r, w')" by (cases "getPackage [] [pkg] w")
  from getPackage_prompt_member[OF g] g e
  show "prompts (snd (getPackage packageName [pkg] w)) = Suc (prompts w)"
    and "stdin (snd (getPackage packageName [pkg] w)) = tl (stdin w)"
    by simp_all
  obtain r0 w3 where rw: "readInputNumber ''Which package?'' 0 0 (listPackages [pkg] w) = (r0, w3)"
    by (cases "readInputNumber ''Which package?'' 0 0 (listPackages [pkg] w)")
  show "fst (getPackage packageName [pkg] w) =
           (case fst (readInputNumber ''Which package?'' 0 0 (listPackages [pkg] w)) of
              Inl err \<Rightarrow> Inl err | Inr index \<Rightarrow> Inr pkg)"
  proof (cases r0)
    case (Inl err)
    with rw e show ?thesis by (simp add: getPackage_prompt)
  next
    case (Inr index)
    with rw readInputNumber_Inr have "0 \<le> index \<and> index \<le> 0" by blast
    then have "index = 0" by simp
    with rw Inr e show ?thesis by (simp add: getPackage_prompt)
  qed
qed

theorem single_candidate_selection_witness:
  "fst (getDevice ''X'' [\<lparr>Serial = ''A'', State = ''device''\<rparr>] \<lparr>stdin = [''7\<newline>''], trace = []\<rparr>)
     = Inr \<lparr>Serial = ''A'', State = ''device''\<rparr>
 \<and> getPackage ''com.foo'' [\<lparr>Name = ''com.foo'', Path = ''/data/app/com.foo.apk''\<rparr>]
       \<lparr>stdin = [''7\<newline>''], trace = []\<rparr>
     = (Inr \<lparr>Name = ''com.foo'', Path = ''/data/app/com.foo.apk''\<rparr>, \<lparr>stdin = [''7\<newline>''], trace = []\<rparr>)
 \<and> fst (getPackage ''com.bar'' [\<lparr>Name = ''com.foo'', Path = ''/data/app/com.foo.apk''\<rparr>]
       \<lparr>stdin = [''7\<newline>''], trace = []\<rparr>)
     = Inl (Errorf ''Could not locate package: %s'' [S ''com.bar''])
 \<and> prompts (snd (getPackage [] [\<lparr>Name = ''com.foo'', Path = ''/data/app/com.foo.apk''\<rparr>]
       \<lparr>stdin = [''7\<newline>''], trace = []\<rparr>)) = Suc 0"
proof (intro conjI)
  from single_candidate_selection[of "''X''" "\<lparr>Serial = ''A'', State = ''device''\<rparr>"
      "\<lparr>stdin = [''7\<newline>''], trace = []\<rparr>"]
  show "fst (getDevice ''X'' [\<lparr>Serial = ''A'', State = ''device''\<rparr>] \<lparr>stdin = [''7\<newline>''], trace = []\<rparr>)
     = Inr \<lparr>Serial = ''A'', State = ''device''\<rparr>"
    by blast
next
  from single_candidate_selection[of _ _ "\<lparr>stdin = [''7\<newline>''], trace = []\<rparr>" "''com.foo''"
      "\<lparr>Name = ''com.foo'', Path = ''/data/app/com.foo.apk''\<rparr>"]
  show "getPackage ''com.foo'' [\<lparr>Name = ''com.foo'', Path = ''/data/app/com.foo.apk''\<rparr>]
       \<lparr>stdin = [''7\<newline>''], trace = []\<rparr>
     = (Inr \<lparr>Name = ''com.foo'', Path = ''/data/app/com.foo.apk''\<rparr>, \<lparr>stdin = [''7\<newline>''], trace = []\<rparr>)"
    by simp
next
  from single_candidate_selection[of _ _ "\<lparr>stdin = [''7\<newline>''], trace = []\<rparr>" "''com.bar''"
      "\<lparr>Name = ''com.foo'', Path = ''/data/app/com.foo.apk''\<rparr>"]
  show "fst (getPackage ''com.bar'' [\<lparr>Name = ''com.foo'', Path = ''/data/app/com.foo.apk''\<rparr>]
       \<lparr>stdin = [''7\<newline>''], trace = []\<rparr>)
     = Inl (Errorf ''Could not locate package: %s'' [S ''com.bar''])"
    by simp
next
  from single_candidate_selection[of _ _ "\<lparr>stdin = [''7\<newline>''], trace = []\<rparr>" "[]"
      "\<lparr>Name = ''com.foo'', Path = ''/data/app/com.foo.apk''\<rparr>"]
  show "prompts (snd (getPackage [] [\<lparr>Name = ''com.foo'', Path = ''/data/app/com.foo.apk''\<rparr>]
       \<lparr>stdin = [''7\<newline>''], trace = []\<rparr>)) = Suc 0"
    by (simp add: prompts_def)
qed

text \<open>
  The claim as it was stated fails for \<^verbatim>\<open>getPackage\<close>: over the single
  package \<^verbatim>\<open>com.foo\<close>, asking for \<^verbatim>\<open>com.bar\<close> fails, and asking for no
  name prompts the user, whose answer 7 is then refused.
\<close>

theorem single_candidate_package_counterexample:
  "length [\<lparr>Name = ''com.foo'', Path = ''/data/app/com.foo.apk''\<rparr>] = 1
 \<and> fst (getPackage ''com.bar'' [\<lparr>Name = ''com.foo'', Path = ''/data/app/com.foo.apk''\<rparr>]
          \<lparr>stdin = [''7\<newline>''], trace = []\<rparr>)
     = Inl (Errorf ''Could not locate package: %s'' [S ''com.bar''])
 \<and> getPackage [] [\<lparr>Name = ''com.foo'', Path = ''/data/app/com.foo.apk''\<rparr>]
          \<lparr>stdin = [''7\<newline>''], trace = []\<rparr>
     = (Inl (Errorf ''Input out of range: %d'' [D 7]),
        \<lparr>stdin = [],
          trace = [Printf ''Packages:\<newline>'' [],
                   Printf ([TAB] @ ''%d:'' @ [TAB] @ ''%s %s\<newline>'')
                     [D 0, S ''com.foo'', S ''/data/app/com.foo.apk''],
                   Printf ''%s [%d-%d]: '' [S ''Which package?'', D 0, D 0],
                   Fprintf_Stderr ''%s\<newline>'' (Errorf ''Input out of range: %d'' [D 7])]\<rparr>)"
  by code_simp

subsection \<open>Parsing the list of packages\<close>

lemma HasPrefix_prefix: "HasPrefix s pre = prefix pre s"
proof
  assume "HasPrefix s pre"
  then have "s = pre @ drop (length pre) s"
    by (metis HasPrefix_def append_take_drop_id)
  then show "prefix pre s" by (metis prefixI)
next
  assume "prefix pre s"
  then show "HasPrefix s pre" by (auto simp: HasPrefix_def prefix_def)
qed

lemma SplitN_2:
  "SplitN s sep 2 =
     (if sep \<in> set s then [takeWhile (\<lambda>c. c \<noteq> sep) s, tl (dropWhile (\<lambda>c. c \<noteq> sep) s)] else [s])"
  by (simp add: numeral_2_eq_2)

lemma split_at_first:
  "sep \<notin> set a \<Longrightarrow> takeWhile (\<lambda>c. c \<noteq> sep) (a @ sep # b) = a \<and>
                     tl (dropWhile (\<lambda>c. c \<noteq> sep) (a @ sep # b)) = b"
  by (induction a) auto

lemma line_record:
  assumes "TrimSpace line0 = ''package:'' @ path @ ''='' @ name" and "CHR ''='' \<notin> set path"
  shows "getPackageList_line line0 (packages, w) = (packages @ [\<lparr>Name = name, Path = path\<rparr>], w)"
proof -
  have d: "drop 8 (TrimSpace line0) = path @ CHR ''='' # name" by (simp add: assms(1))
  have p: "HasPrefix (TrimSpace line0) ''package:''" by (simp add: HasPrefix_prefix assms(1))
  from split_at_first[OF assms(2), of name] p d show ?thesis
    by (simp add: getPackageList_line_def Let_def SplitN_2)
qed

lemma line_malformed:
  assumes "TrimSpace line0 = ''package:'' @ rest" and "CHR ''='' \<notin> set rest"
  shows "getPackageList_line line0 (packages, w) =
           (packages, w\<lparr>trace := trace w @ [badResponse (TrimSpace line0)]\<rparr>)"
proof -
  have d: "drop 8 (TrimSpace line0) = rest" by (simp add: assms(1))
  have p: "HasPrefix (TrimSpace line0) ''package:''" by (simp add: HasPrefix_prefix assms(1))
  from p d assms(2) show ?thesis
    by (simp add: getPackageList_line_def Let_def SplitN_2 printError_def badResponse_def)
qed

lemma line_skipped:
  assumes "\<not> prefix ''package:'' (TrimSpace line0)"
  shows "getPackageList_line line0 (packages, w) = (packages, w)"
  using assms by (simp add: getPackageList_line_def Let_def HasPrefix_prefix)

lemma line_lineRecord:
  "fst (getPackageList_line line0 (packages, w)) =
     packages @ (case lineRecord line0 of None \<Rightarrow> [] | Some pkg \<Rightarrow> [pkg])"
  by (simp add: getPackageList_line_def lineRecord_def Let_def HasPrefix_prefix SplitN_2)

lemma loop_lineRecord:
  "fst (fold getPackageList_line lines (packages, w)) = packages @ List.map_filter lineRecord lines"
proof (induction lines arbitrary: packages w)
  case Nil
  then show ?case by (simp add: List.map_filter_simps)
next
  case (Cons line lines)
  obtain packages' w' where s: "getPackageList_line line (packages, w) = (packages', w')"
    by (cases "getPackageList_line line (packages, w)")
  with line_lineRecord[of line packages w]
  have "packages' = packages @ (case lineRecord line of None \<Rightarrow> [] | Some pkg \<Rightarrow> [pkg])" by simp
  with s Cons.IH[of packages' w'] show ?case
    by (simp add: List.map_filter_simps split: option.split)
qed

lemma getPackageList_records:
  assumes "call device [''pm'', ''list'', ''packages'', ''-f''] = Inr data"
  shows "fst (getPackageList call device w) =
     (if List.map_filter lineRecord (Split data NL) = [] then Inl (Errorf ''No packages found'' [])
      else Inr (List.map_filter lineRecord (Split data NL)))"
proof -
  obtain packages w1 where f: "fold getPackageList_line (Split data NL) ([], w) = (packages, w1)"
    by (cases "fold getPackageList_line (Split data NL) ([], w)")
  with loop_lineRecord[of "Split data NL" "[]" w]
  have "packages = List.map_filter lineRecord (Split data NL)" by simp
  with f assms show ?thesis by (simp add: getPackageList_def Let_def fail_eq)
qed

text \<open>
  Claim C2.  A line that, once trimmed, reads \<^verbatim>\<open>package:<path>=<identifier>\<close>,
  the path holding no \<^verbatim>\<open>=\<close> (so that it ends at the first one), adds exactly
  the record of that path and that name to the packages, and prints nothing.
  When the command's output is that line alone, the list parsed is that one
  record.
\<close>

theorem getPackageList_wellformed_line:
  "(TrimSpace line = ''package:'' @ path @ ''='' @ name \<and> CHR ''='' \<notin> set path \<longrightarrow>
      getPackageList_line line (packages, w) = (packages @ [\<lparr>Name = name, Path = path\<rparr>], w))
 \<and> (TrimSpace line = ''package:'' @ path @ ''='' @ name \<and> CHR ''='' \<notin> set path
      \<and> NL \<notin> set line \<and> call device [''pm'', ''list'', ''packages'', ''-f''] = Inr line \<longrightarrow>
      getPackageList call device w = (Inr [\<lparr>Name = name, Path = path\<rparr>], w))"
proof (intro conjI impI)
  assume "TrimSpace line = ''package:'' @ path @ ''='' @ name \<and> CHR ''='' \<notin> set path"
  then show "getPackageList_line line (packages, w) = (packages @ [\<lparr>Name = name, Path = path\<rparr>], w)"
    by (simp add: line_record)
next
  assume a: "TrimSpace line = ''package:'' @ path @ ''='' @ name \<and> CHR ''='' \<notin> set path
      \<and> NL \<notin> set line \<and> call device [''pm'', ''list'', ''packages'', ''-f''] = Inr line"
  then have "getPackageList_line line ([], w) = ([] @ [\<lparr>Name = name, Path = path\<rparr>], w)"
    by (intro line_record) simp_all
  with a show "getPackageList call device w = (Inr [\<lparr>Name = name, Path = path\<rparr>], w)"
    by (simp add: getPackageList_def Let_def)
qed

theorem getPackageList_wellformed_line_witness:
  "getPackageList_line ''  package:/a/b.apk=com.example '' ([], \<lparr>stdin = [], trace = []\<rparr>)
     = ([\<lparr>Name = ''com.example'', Path = ''/a/b.apk''\<rparr>], \<lparr>stdin = [], trace = []\<rparr>)
 \<and> getPackageList (\<lambda>device args. Inr ''package:/a/b.apk=com.example'')
       \<lparr>Serial = ''A'', State = ''device''\<rparr> \<lparr>stdin = [], trace = []\<rparr>
     = (Inr [\<lparr>Name = ''com.example'', Path = ''/a/b.apk''\<rparr>], \<lparr>stdin = [], trace = []\<rparr>)"
proof (intro conjI)
  have t: "TrimSpace ''  package:/a/b.apk=com.example '' = ''package:'' @ ''/a/b.apk'' @ ''='' @ ''com.example''"
    by code_simp
  from getPackageList_wellformed_line[of "''  package:/a/b.apk=com.example ''" "''/a/b.apk''" "''com.example''"
      "[]" "\<lparr>stdin = [], trace = []\<rparr>"] t
  show "getPackageList_line ''  package:/a/b.apk=com.example '' ([], \<lparr>stdin = [], trace = []\<rparr>)
     = ([\<lparr>Name = ''com.example'', Path = ''/a/b.apk''\<rparr>], \<lparr>stdin = [], trace = []\<rparr>)"
    by simp
next
  have t: "TrimSpace ''package:/a/b.apk=com.example'' = ''package:'' @ ''/a/b.apk'' @ ''='' @ ''com.example''"
    by code_simp
  from getPackageList_wellformed_line[of "''package:/a/b.apk=com.example''" "''/a/b.apk''" "''com.example''"
      _ "\<lparr>stdin = [], trace = []\<rparr>" "\<lambda>device args. Inr ''package:/a/b.apk=com.example''"
      "\<lparr>Serial = ''A'', State = ''device''\<rparr>"] t
  show "getPackageList (\<lambda>device args. Inr ''package:/a/b.apk=com.example'')
       \<lparr>Serial = ''A'', State = ''device''\<rparr> \<lparr>stdin = [], trace = []\<rparr>
     = (Inr [\<lparr>Name = ''com.example'', Path = ''/a/b.apk''\<rparr>], \<lparr>stdin = [], trace = []\<rparr>)"
    by simp
qed

text \<open>
  Claim C6.  When the package-manager command succeeds, \<^verbatim>\<open>getPackageList\<close>
  fails exactly when no line of the output yields a record, and the error is
  then "No packages found"; in every other case it returns the records of the
  qualifying lines, in order, whatever other lines the output holds.
\<close>

theorem getPackageList_no_packages:
  "call device [''pm'', ''list'', ''packages'', ''-f''] = Inr data \<longrightarrow>
     (List.map_filter lineRecord (Split data NL) = [] \<longrightarrow>
        fst (getPackageList call device w) = Inl (Errorf ''No packages found'' []))
   \<and> (List.map_filter lineRecord (Split data NL) \<noteq> [] \<longrightarrow>
        fst (getPackageList call device w) = Inr (List.map_filter lineRecord (Split data NL)))
   \<and> ((\<exists>err. fst (getPackageList call device w) = Inl err) \<longleftrightarrow>
        List.map_filter lineRecord (Split data NL) = [])"
proof
  assume "call device [''pm'', ''list'', ''packages'', ''-f''] = Inr data"
  with getPackageList_records[of call device data w]
  show "(List.map_filter lineRecord (Split data NL) = [] \<longrightarrow>
        fst (getPackageList call device w) = Inl (Errorf ''No packages found'' []))
   \<and> (List.map_filter lineRecord (Split data NL) \<noteq> [] \<longrightarrow>
        fst (getPackageList call device w) = Inr (List.map_filter lineRecord (Split data NL)))
   \<and> ((\<exists>err. fst (getPackageList call device w) = Inl err) \<longleftrightarrow>
        List.map_filter lineRecord (Split data NL) = [])"
    by (simp split: if_splits)
qed

theorem getPackageList_no_packages_witness:
  "fst (getPackageList (\<lambda>device args. Inr ''WARNING: linker\<newline>package:broken\<newline>'')
         \<lparr>Serial = ''A'', State = ''device''\<rparr> \<lparr>stdin = [], trace = []\<rparr>)
     = Inl (Errorf ''No packages found'' [])
 \<and> fst (getPackageList (\<lambda>device args. Inr ''WARNING: linker\<newline>package:broken\<newline>package:/a/b.apk=com.example\<newline>'')
         \<lparr>Serial = ''A'', State = ''device''\<rparr> \<lparr>stdin = [], trace = []\<rparr>)
     = Inr [\<lparr>Name = ''com.example'', Path = ''/a/b.apk''\<rparr>]"
proof (intro conjI)
  have m: "List.map_filter lineRecord (Split ''WARNING: linker\<newline>package:broken\<newline>'' NL) = []"
    by code_simp
  from getPackageList_no_packages[of "\<lambda>device args. Inr ''WARNING: linker\<newline>package:broken\<newline>''"
      "\<lparr>Serial = ''A'', State = ''device''\<rparr>" "''WARNING: linker\<newline>package:broken\<newline>''"
      "\<lparr>stdin = [], trace = []\<rparr>"] m
  show "fst (getPackageList (\<lambda>device args. Inr ''WARNING: linker\<newline>package:broken\<newline>'')
         \<lparr>Serial = ''A'', State = ''device''\<rparr> \<lparr>stdin = [], trace = []\<rparr>)
     = Inl (Errorf ''No packages found'' [])"
    by simp
next
  have m: "List.map_filter lineRecord
             (Split ''WARNING: linker\<newline>package:broken\<newline>package:/a/b.apk=com.example\<newline>'' NL)
           = [\<lparr>Name = ''com.example'', Path = ''/a/b.apk''\<rparr>]"
    by code_simp
  from getPackageList_no_packages[of
      "\<lambda>device args. Inr ''WARNING: linker\<newline>package:broken\<newline>package:/a/b.apk=com.example\<newline>''"
      "\<lparr>Serial = ''A'', State = ''device''\<rparr>"
      "''WARNING: linker\<newline>package:broken\<newline>package:/a/b.apk=com.example\<newline>''"
      "\<lparr>stdin = [], trace = []\<rparr>"] m
  show "fst (getPackageList (\<lambda>device args. Inr ''WARNING: linker\<newline>package:broken\<newline>package:/a/b.apk=com.example\<newline>'')
         \<lparr>Serial = ''A'', State = ''device''\<rparr> \<lparr>stdin = [], trace = []\<rparr>)
     = Inr [\<lparr>Name = ''com.example'', Path = ''/a/b.apk''\<rparr>]"
    by simp
qed

text \<open>
  Claim C7.  A line that, once trimmed, starts with \<^verbatim>\<open>package:\<close> and has no
  \<^verbatim>\<open>=\<close> after it makes the loop print the warning
  "Bad package manager response" for the trimmed line, add no record, and go
  on with the lines that follow.  A line that does not start with the prefix
  changes nothing at all: no record, nothing printed, and the loop goes on.
\<close>

theorem getPackageList_skips_lines:
  "(TrimSpace line = ''package:'' @ rest \<and> CHR ''='' \<notin> set rest \<longrightarrow>
      fold getPackageList_line (line # lines) (packages, w) =
        fold getPackageList_line lines
          (packages, w\<lparr>trace := trace w @ [badResponse (TrimSpace line)]\<rparr>)
      \<and> lineRecord line = None)
 \<and> (\<not> prefix ''package:'' (TrimSpace line) \<longrightarrow>
      fold getPackageList_line (line # lines) (packages, w) =
        fold getPackageList_line lines (packages, w)
      \<and> lineRecord line = None)"
proof (intro conjI impI)
  assume a: "TrimSpace line = ''package:'' @ rest \<and> CHR ''='' \<notin> set rest"
  then show "fold getPackageList_line (line # lines) (packages, w) =
        fold getPackageList_line lines
          (packages, w\<lparr>trace := trace w @ [badResponse (TrimSpace line)]\<rparr>)"
    using line_malformed[of line rest packages w] by simp
  from a show "lineRecord line = None" by (simp add: lineRecord_def)
next
  assume a: "\<not> prefix ''package:'' (TrimSpace line)"
  then show "fold getPackageList_line (line # lines) (packages, w) =
        fold getPackageList_line lines (packages, w)"
    by (simp add: line_skipped)
  from a show "lineRecord line = None" by (simp add: lineRecord_def Let_def)
qed

theorem getPackageList_skips_lines_witness:
  "fold getPackageList_line [''package:broken'', ''package:/a/b.apk=com.example'']
     ([], \<lparr>stdin = [], trace = []\<rparr>)
   = ([\<lparr>Name = ''com.example'', Path = ''/a/b.apk''\<rparr>],
      \<lparr>stdin = [], trace = [badResponse ''package:broken'']\<rparr>)
 \<and> fold getPackageList_line [''WARNING: linker'', ''package:/a/b.apk=com.example'']
     ([], \<lparr>stdin = [], trace = []\<rparr>)
   = ([\<lparr>Name = ''com.example'', Path = ''/a/b.apk''\<rparr>], \<lparr>stdin = [], trace = []\<rparr>)"
proof (intro conjI)
  have t: "TrimSpace ''package:broken'' = ''package:'' @ ''broken''" by code_simp
  have r: "fold getPackageList_line [''package:/a/b.apk=com.example'']
             ([], \<lparr>stdin = [], trace = [badResponse ''package:broken'']\<rparr>)
           = ([\<lparr>Name = ''com.example'', Path = ''/a/b.apk''\<rparr>],
              \<lparr>stdin = [], trace = [badResponse ''package:broken'']\<rparr>)"
    by code_simp
  from getPackageList_skips_lines[of "''package:broken''" "''broken''"
      "[''package:/a/b.apk=com.example'']" "[]" "\<lparr>stdin = [], trace = []\<rparr>"] t r
  show "fold getPackageList_line [''package:broken'', ''package:/a/b.apk=com.example'']
     ([], \<lparr>stdin = [], trace = []\<rparr>)
   = ([\<lparr>Name = ''com.example'', Path = ''/a/b.apk''\<rparr>],
      \<lparr>stdin = [], trace = [badResponse ''package:broken'']\<rparr>)"
    by simp
next
  have t: "\<not> prefix ''package:'' (TrimSpace ''WARNING: linker'')" by code_simp
  have r: "fold getPackageList_line [''package:/a/b.apk=com.example'']
             ([], \<lparr>stdin = [], trace = []\<rparr>)
           = ([\<lparr>Name = ''com.example'', Path = ''/a/b.apk''\<rparr>], \<lparr>stdin = [], trace = []\<rparr>)"
    by code_simp
  from getPackageList_skips_lines[of "''WARNING: linker''" _
      "[''package:/a/b.apk=com.example'']" "[]" "\<lparr>stdin = [], trace = []\<rparr>"] t r
  show "fold getPackageList_line [''WARNING: linker'', ''package:/a/b.apk=com.example'']
     ([], \<lparr>stdin = [], trace = []\<rparr>)
   = ([\<lparr>Name = ''com.example'', Path = ''/a/b.apk''\<rparr>], \<lparr>stdin = [], trace = []\<rparr>)"
    by simp
qed

subsection \<open>The whole run\<close>

text \<open>
  Claim C8.  Once a device and a package are resolved, \<^verbatim>\<open>main\<close> builds the
  name of the local file as the package's \<^verbatim>\<open>Name\<close> followed by \<^verbatim>\<open>.apk\<close>,
  announces it, and pulls from the package's \<^verbatim>\<open>Path\<close> on the device chosen
  to that file; it then reports the outcome of the pull, and exits with 0 if
  the pull succeeded and with 1 if it failed.
\<close>

theorem main_pulls_resolved_package:
  assumes "Devices e = Inr devices"
    and "getDevice deviceSerial devices w0 = (Inr device, w1)"
    and "getPackageList (Call e) device w1 = (Inr pkgs, w2)"
    and "getPackage packageName pkgs w2 = (Inr pkg, w3)"
  shows "trace (snd (main e packageName deviceSerial w0)) =
           trace w3 @
           [Printf ''Pulling %s from device... '' [S (Name pkg @ ''.apk'')],
            Pull device (Path pkg) (Name pkg @ ''.apk'')] @
           (case PullResult e device (Path pkg) (Name pkg @ ''.apk'') of
              None \<Rightarrow> [Printf ''Success\<newline>'' []]
            | Some err \<Rightarrow>
                [Printf ''Failed\<newline>'' [],
                 Fprintf_Stderr ''%s\<newline>'' (Errorf ''Failed to pull package from device: %s'' [S err])])
       \<and> fst (main e packageName deviceSerial w0) =
           (case PullResult e device (Path pkg) (Name pkg @ ''.apk'') of None \<Rightarrow> 0 | Some err \<Rightarrow> 1)"
  using assms
  by (simp add: main_def Let_def printf_def printError_def split: option.split)

theorem main_pulls_resolved_package_witness:
  "main \<lparr>Devices = Inr [\<lparr>Serial = ''A'', State = ''device''\<rparr>, \<lparr>Serial = ''B'', State = ''device''\<rparr>],
         Call = (\<lambda>device args. Inr ''package:/data/app/com.foo.apk=com.foo\<newline>''),
         PullResult = (\<lambda>device src dst. None)\<rparr>
     [] [] \<lparr>stdin = [''1\<newline>'', ''0\<newline>''], trace = []\<rparr>
   = (0, \<lparr>stdin = [],
          trace = [Printf ''Devices:\<newline>'' [],
                   Printf ([TAB] @ ''%d:'' @ [TAB] @ ''%s %s\<newline>'') [D 0, S ''A'', S ''device''],
                   Printf ([TAB] @ ''%d:'' @ [TAB] @ ''%s %s\<newline>'') [D 1, S ''B'', S ''device''],
                   Printf ''%s [%d-%d]: '' [S ''Which device?'', D 0, D 1],
                   Printf ''Packages:\<newline>'' [],
                   Printf ([TAB] @ ''%d:'' @ [TAB] @ ''%s %s\<newline>'')
                     [D 0, S ''com.foo'', S ''/data/app/com.foo.apk''],
                   Printf ''%s [%d-%d]: '' [S ''Which package?'', D 0, D 0],
                   Printf ''Pulling %s from device... '' [S ''com.foo.apk''],
                   Pull \<lparr>Serial = ''B'', State = ''device''\<rparr> ''/data/app/com.foo.apk'' ''com.foo.apk'',
                   Printf ''Success\<newline>'' []]\<rparr>)"
proof -
  let ?e = "\<lparr>Devices = Inr [\<lparr>Serial = ''A'', State = ''device''\<rparr>, \<lparr>Serial = ''B'', State = ''device''\<rparr>],
         Call = (\<lambda>device args. Inr ''package:/data/app/com.foo.apk=com.foo\<newline>''),
         PullResult = (\<lambda>device src dst. None)\<rparr>"
  let ?w1 = "\<lparr>stdin = [''0\<newline>''],
          trace = [Printf ''Devices:\<newline>'' [],
                   Printf ([TAB] @ ''%d:'' @ [TAB] @ ''%s %s\<newline>'') [D 0, S ''A'', S ''device''],
                   Printf ([TAB] @ ''%d:'' @ [TAB] @ ''%s %s\<newline>'') [D 1, S ''B'', S ''device''],
                   Printf ''%s [%d-%d]: '' [S ''Which device?'', D 0, D 1]]\<rparr>"
  let ?w3 = "\<lparr>stdin = [],
          trace = [Printf ''Devices:\<newline>'' [],
                   Printf ([TAB] @ ''%d:'' @ [TAB] @ ''%s %s\<newline>'') [D 0, S ''A'', S ''device''],
                   Printf ([TAB] @ ''%d:'' @ [TAB] @ ''%s %s\<newline>'') [D 1, S ''B'', S ''device''],
                   Printf ''%s [%d-%d]: '' [S ''Which device?'', D 0, D 1],
                   Printf ''Packages:\<newline>'' [],
                   Printf ([TAB] @ ''%d:'' @ [TAB] @ ''%s %s\<newline>'')
                     [D 0, S ''com.foo'', S ''/data/app/com.foo.apk''],
                   Printf ''%s [%d-%d]: '' [S ''Which package?'', D 0, D 0]]\<rparr>"
  have d: "Devices ?e = Inr [\<lparr>Serial = ''A'', State = ''device''\<rparr>, \<lparr>Serial = ''B'', State = ''device''\<rparr>]"
    by simp
  have g: "getDevice [] [\<lparr>Serial = ''A'', State = ''device''\<rparr>, \<lparr>Serial = ''B'', State = ''device''\<rparr>]
             \<lparr>stdin = [''1\<newline>'', ''0\<newline>''], trace = []\<rparr>
           = (Inr \<lparr>Serial = ''B'', State = ''device''\<rparr>, ?w1)"
    by code_simp
  have l: "getPackageList (Call ?e) \<lparr>Serial = ''B'', State = ''device''\<rparr> ?w1
             = (Inr [\<lparr>Name = ''com.foo'', Path = ''/data/app/com.foo.apk''\<rparr>], ?w1)"
    by code_simp
  have p: "getPackage [] [\<lparr>Name = ''com.foo'', Path = ''/data/app/com.foo.apk''\<rparr>] ?w1
             = (Inr \<lparr>Name = ''com.foo'', Path = ''/data/app/com.foo.apk''\<rparr>, ?w3)"
    by code_simp
  have s: "stdin (snd (main ?e [] [] \<lparr>stdin = [''1\<newline>'', ''0\<newline>''], trace = []\<rparr>)) = []"
    by code_simp
  from main_pulls_resolved_package[OF d g l p] s
  show ?thesis
    by (cases "main ?e [] [] \<lparr>stdin = [''1\<newline>'', ''0\<newline>''], trace = []\<rparr>") simp
qed

end
